theory Spec2Isabelle
  imports Complex_Main
begin

section \<open>Browser client: \<open>script.js\<close>\<close>

text \<open>
  The four values of a WebSocket's \<open>readyState\<close>, shared by the browser client and the
  server's connections.
\<close>

datatype ready_state = CONNECTING | OPEN | CLOSING | CLOSED

text \<open>A thrown JavaScript error, with its \<open>message\<close> property.\<close>

datatype js_error = Error string

fun error_message :: "js_error \<Rightarrow> string" where
  "error_message (Error m) = m"

text \<open>
  The browser's WebSocket object as \<open>script.js\<close> uses it: its \<open>readyState\<close> and the frames
  handed to \<open>send\<close> so far. The page state holds the module variable \<open>websocket\<close>
  (\<open>null\<close> is \<open>None\<close>), the text and class of the \<open>messageDisplay\<close> element, and the lines
  written to the console.
\<close>

record 'd client_socket =
  cs_readyState :: ready_state
  cs_sent :: "'d list"

datatype message_type = Success | ErrorType | Info

datatype 'd console_line = ConsoleLog string 'd | ConsoleError string js_error

record 'd page =
  websocket :: "'d client_socket option"
  messageDisplay_text :: string
  messageDisplay_class :: "message_type option"
  page_console :: "'d console_line list"

text \<open>
  \<open>displayMessage(message, type)\<close>: sets the text, removes the three classes and adds
  \<open>type\<close> again when it is \<open>success\<close> or \<open>error\<close>. (The timer that clears a success message
  later is not part of this call's effect.)
\<close>

definition displayMessage :: "string \<Rightarrow> message_type \<Rightarrow> 'd page \<Rightarrow> 'd page" where
  "displayMessage message ty p =
     p\<lparr>messageDisplay_text := message,
       messageDisplay_class := (if ty = Success \<or> ty = ErrorType then Some ty else None)\<rparr>"

text \<open>
  \<open>websocket.send(data)\<close> of the browser. Whether the call throws for this data is the
  browser's decision, taken as the parameter \<open>throws\<close>; a call that does not throw queues
  the frame.
\<close>

definition websocket_send ::
  "('d \<Rightarrow> js_error option) \<Rightarrow> 'd \<Rightarrow> 'd client_socket \<Rightarrow> js_error + 'd client_socket" where
  "websocket_send throws data ws =
     (case throws data of
        Some e \<Rightarrow> Inl e
      | None \<Rightarrow> Inr (ws\<lparr>cs_sent := cs_sent ws @ [data]\<rparr>))"

text \<open>
  \<open>sendData(data)\<close>, lines 137 to 152 of \<open>script.js\<close>. The result is \<open>Inl e\<close> when the call
  throws \<open>e\<close> to its caller and \<open>Inr b\<close> when it returns \<open>b\<close>.
\<close>

definition sendData ::
  "('d \<Rightarrow> js_error option) \<Rightarrow> 'd \<Rightarrow> 'd page \<Rightarrow> (js_error + bool) \<times> 'd page" where
  "sendData throws data p =
     (case websocket p of
        None \<Rightarrow> (Inr False, displayMessage ''Cannot send: Not connected to server'' ErrorType p)
      | Some ws \<Rightarrow>
          if cs_readyState ws \<noteq> OPEN
          then (Inr False, displayMessage ''Cannot send: Not connected to server'' ErrorType p)
          else (case websocket_send throws data ws of
                  Inr ws' \<Rightarrow>
                    (Inr True,
                     p\<lparr>websocket := Some ws',
                       page_console := page_console p @ [ConsoleLog ''Sent to server:'' data]\<rparr>)
                | Inl e \<Rightarrow>
                    (Inr False,
                     displayMessage (''Error sending data: '' @ error_message e) ErrorType
                       (p\<lparr>page_console := page_console p @ [ConsoleError ''Error sending data:'' e]\<rparr>))))"

text \<open>The frames the page has handed to its socket; none when there is no socket.\<close>

definition frames_sent :: "'d page \<Rightarrow> 'd list" where
  "frames_sent p = (case websocket p of None \<Rightarrow> [] | Some ws \<Rightarrow> cs_sent ws)"

text \<open>The socket is present and in the \<open>OPEN\<close> state.\<close>

definition socket_open :: "'d page \<Rightarrow> bool" where
  "socket_open p = (case websocket p of None \<Rightarrow> False | Some ws \<Rightarrow> cs_readyState ws = OPEN)"

section \<open>Relay server: values, connections and state\<close>

text \<open>
  A JavaScript value as \<open>JSON.parse\<close> returns it, together with \<open>undefined\<close> (the value of a
  property that is absent). An object is the list of its own properties, each key once.
\<close>

datatype jsval =
    JUndefined
  | JNull
  | JBool bool
  | JNum rat
  | JStr string
  | JArr "jsval list"
  | JObj "(string \<times> jsval) list"

text \<open>
  Reading a property whose name is none of the built-in ones (the server reads
  \<open>clientType\<close>, \<open>color\<close> and \<open>message\<close>): a \<open>TypeError\<close> on \<open>null\<close> and \<open>undefined\<close>, the
  stored value on an object that has the key, \<open>undefined\<close> everywhere else.
\<close>

fun get_prop :: "jsval \<Rightarrow> string \<Rightarrow> js_error + jsval" where
  "get_prop JNull k = Inl (Error (''Cannot read properties of null (reading '' @ k @ '')''))"
| "get_prop JUndefined k =
     Inl (Error (''Cannot read properties of undefined (reading '' @ k @ '')''))"
| "get_prop (JObj kvs) k = Inr (case map_of kvs k of None \<Rightarrow> JUndefined | Some v \<Rightarrow> v)"
| "get_prop v k = Inr JUndefined"

text \<open>The truth value JavaScript gives a value in \<open>&&\<close>, \<open>||\<close> and \<open>if\<close>.\<close>

fun truthy :: "jsval \<Rightarrow> bool" where
  "truthy JUndefined = False"
| "truthy JNull = False"
| "truthy (JBool b) = b"
| "truthy (JNum n) = (n \<noteq> 0)"
| "truthy (JStr s) = (s \<noteq> [])"
| "truthy (JArr vs) = True"
| "truthy (JObj kvs) = True"

text \<open>
  Converting a value to a string, as a template literal does. A parsed object that has a
  key \<open>toString\<close> of its own hides the method of that name behind a value that cannot be
  called, and the conversion throws a \<open>TypeError\<close>; an array converts its elements, so it
  throws when one of them does; every other value has a text. The text itself is not
  needed: \<open>to_text\<close> gives back the value that was printed.
\<close>

fun cannot_convert :: "jsval \<Rightarrow> bool" where
  "cannot_convert (JObj kvs) = (map_of kvs ''toString'' \<noteq> None)"
| "cannot_convert (JArr vs) = list_ex cannot_convert vs"
| "cannot_convert v = False"

definition to_text :: "jsval \<Rightarrow> js_error + jsval" where
  "to_text v =
     (if cannot_convert v then Inl (Error ''Cannot convert object to primitive value'')
      else Inr v)"

text \<open>
  A JavaScript number that holds a non-negative integer is exact up to \<open>2 ^ 53\<close>; there
  \<open>n + 1\<close> rounds back to \<open>n\<close>. \<open>js_incr\<close> is \<open>n++\<close> on such a number, and \<open>string_of_nat\<close>
  is its decimal text, as a template literal prints it.
\<close>

definition js_incr :: "nat \<Rightarrow> nat" where
  "js_incr n = (if n < 2 ^ 53 then n + 1 else n)"

definition digit_char :: "nat \<Rightarrow> char" where
  "digit_char d = ''0123456789'' ! d"

fun string_of_nat :: "nat \<Rightarrow> string" where
  "string_of_nat n =
     (if n < 10 then [digit_char n] else string_of_nat (n div 10) @ [digit_char (n mod 10)])"

declare string_of_nat.simps [simp del]

text \<open>
  A WebSocket object of the server is known by its reference, a \<open>handle\<close>. The server
  reads and writes three of its properties. \<open>wss.clients\<close> is a \<open>Set\<close> of these objects,
  kept in insertion order: a list of handles with the object each one refers to.
\<close>

type_synonym handle = nat

record ws_conn =
  readyState :: ready_state
  isAlive :: bool
  clientId :: string

text \<open>The metadata object stored in the \<open>clients\<close> map (lines 92 to 100).\<close>

record client =
  c_ws :: handle
  c_id :: string
  c_ip :: string
  c_connectedAt :: int
  c_type :: jsval
  c_isAlive :: bool
  c_messageCount :: nat

text \<open>
  What goes out on a connection: the bare token handed to \<open>broadcast\<close>, or the text that
  \<open>JSON.stringify\<close> makes of a system or an error envelope, kept here as the envelope's
  fields (\<open>message\<close> and \<open>timestamp\<close>; \<open>message\<close> and \<open>error\<close>).
\<close>

datatype frame =
    Token jsval
  | SystemNotice string int
  | ErrorNotice string string

text \<open>
  The calls the server makes on sockets, timers and the process, in the order it makes
  them, and the console lines that carry data.
\<close>

datatype effect =
    Send handle frame
  | Ping handle
  | Terminate handle
  | CloseConn handle nat string
  | ClearInterval
  | WssClose
  | ServerClose
  | SetTimeout nat
  | Exit nat

datatype log_line =
    NewConnection string string nat
  | MessageReceived string "jsval option" string
  | ClientTypeIdentified jsval
  | BroadcastDone jsval int
  | ProcessingError string string
  | SendToClientError string
  | ConnectionClosed string "jsval option" nat string int nat int
  | SocketErrorLine string "jsval option" string
  | TerminatingInactive string
  | ShuttingDown
  | WssClosedLine
  | HttpClosedLine
  | ForcedShutdown
  | UncaughtExceptionLine js_error

text \<open>
  The state of the server process: \<open>wss.clients\<close>, the \<open>clients\<close> map, \<open>clientIdCounter\<close>,
  whether the heartbeat interval is still set, the callbacks and the timer that \<open>shutdown\<close>
  leaves pending, the exit status once the process has exited, and the two traces.
\<close>

record server =
  wss_clients :: "(handle \<times> ws_conn) list"
  clients :: "string \<rightharpoonup> client"
  clientIdCounter :: nat
  heartbeatTimer :: bool
  wss_close_cb :: bool
  http_close_cb :: bool
  grace_timer :: bool
  exited :: "nat option"
  effects :: "effect list"
  console :: "log_line list"

text \<open>The state when the module has been loaded and the server listens.\<close>

definition initial_server :: server where
  "initial_server =
     \<lparr>wss_clients = [], clients = Map.empty, clientIdCounter = 1, heartbeatTimer = True,
      wss_close_cb = False, http_close_cb = False, grace_timer = False, exited = None,
      effects = [], console = []\<rparr>"

text \<open>
  The environment's part of a send: \<open>thr h m\<close> is the error that \<open>send\<close> throws when the
  socket \<open>h\<close> is given \<open>m\<close>, \<open>None\<close> when the call returns.
\<close>

type_synonym send_outcome = "handle \<Rightarrow> frame \<Rightarrow> js_error option"

section \<open>Relay server: the functions of the module\<close>

text \<open>\<open>generateClientId\<close>, lines 64 to 66.\<close>

definition generateClientId :: "server \<Rightarrow> string \<times> server" where
  "generateClientId s =
     (''client_'' @ string_of_nat (clientIdCounter s),
      s\<lparr>clientIdCounter := js_incr (clientIdCounter s)\<rparr>)"

text \<open>
  \<open>getClientInfo\<close>, lines 73 to 77: the identity alone when the map has no entry, else the
  identity and the value printed in parentheses after it. Line 76 prints
  \<open>client.type || 'unknown'\<close> in a template literal, so the call throws when that value
  cannot be converted.
\<close>

definition getClientInfo :: "string \<Rightarrow> server \<Rightarrow> js_error + string \<times> jsval option" where
  "getClientInfo cid s =
     (case clients s cid of
        None \<Rightarrow> Inr (cid, None)
      | Some c \<Rightarrow>
          (case to_text (if truthy (c_type c) then c_type c else JStr ''unknown'') of
             Inl e \<Rightarrow> Inl e
           | Inr txt \<Rightarrow> Inr (cid, Some txt)))"

text \<open>
  \<open>broadcast\<close>, lines 229 to 235. The loop stops at the first \<open>send\<close> that throws, and the
  error leaves \<open>broadcast\<close>; the sends made before it stay made. A call that returns has
  no \<open>return\<close> statement, so its value is \<open>undefined\<close>.
\<close>

fun broadcast_loop ::
  "send_outcome \<Rightarrow> frame \<Rightarrow> handle option \<Rightarrow> (handle \<times> ws_conn) list \<Rightarrow>
     js_error option \<times> effect list" where
  "broadcast_loop thr m sender [] = (None, [])"
| "broadcast_loop thr m sender ((h, ws) # rest) =
     (if Some h \<noteq> sender \<and> readyState ws = OPEN
      then (case thr h m of
              Some e \<Rightarrow> (Some e, [])
            | None \<Rightarrow>
                (case broadcast_loop thr m sender rest of
                   (r, effs) \<Rightarrow> (r, Send h m # effs)))
      else broadcast_loop thr m sender rest)"

definition broadcast ::
  "send_outcome \<Rightarrow> frame \<Rightarrow> handle option \<Rightarrow> server \<Rightarrow> (js_error + jsval) \<times> server" where
  "broadcast thr m sender s =
     (case broadcast_loop thr m sender (wss_clients s) of
        (r, effs) \<Rightarrow>
          (case r of Some e \<Rightarrow> Inl e | None \<Rightarrow> Inr JUndefined,
           s\<lparr>effects := effects s @ effs\<rparr>))"

text \<open>\<open>broadcastSystemMessage\<close>, lines 242 to 249; \<open>now\<close> is the clock's reading.\<close>

definition broadcastSystemMessage ::
  "send_outcome \<Rightarrow> string \<Rightarrow> handle option \<Rightarrow> int \<Rightarrow> server \<Rightarrow>
     (js_error + jsval) \<times> server" where
  "broadcastSystemMessage thr message sender now s =
     broadcast thr (SystemNotice message now) sender s"

text \<open>
  \<open>sendToClient\<close>, lines 256 to 264. A socket that is no longer in \<open>wss.clients\<close> has
  closed, so its \<open>readyState\<close> is \<open>CLOSED\<close>.
\<close>

definition ws_readyState :: "server \<Rightarrow> handle \<Rightarrow> ready_state" where
  "ws_readyState s h =
     (case map_of (wss_clients s) h of None \<Rightarrow> CLOSED | Some ws \<Rightarrow> readyState ws)"

definition sendToClient ::
  "send_outcome \<Rightarrow> handle \<Rightarrow> frame \<Rightarrow> server \<Rightarrow> (js_error + jsval) \<times> server" where
  "sendToClient thr h m s =
     (if ws_readyState s h = OPEN
      then (case thr h m of
              None \<Rightarrow> (Inr JUndefined, s\<lparr>effects := effects s @ [Send h m]\<rparr>)
            | Some e \<Rightarrow>
                (Inr JUndefined, s\<lparr>console := console s @ [SendToClientError (error_message e)]\<rparr>))
      else (Inr JUndefined, s))"

text \<open>
  The \<open>connection\<close> handler, lines 86 to 218. The library has put the new, open socket
  into \<open>wss.clients\<close> before it calls the handler; the handler draws the identity, stores
  the metadata and sets \<open>ws.clientId\<close> and \<open>ws.isAlive\<close>. A new connection is a new
  object, so an event that names a socket already in the set does not occur.
\<close>

definition on_connection :: "handle \<Rightarrow> string \<Rightarrow> int \<Rightarrow> server \<Rightarrow> server" where
  "on_connection h ip now s =
     (if map_of (wss_clients s) h \<noteq> None then s
      else (case generateClientId s of
              (cid, s1) \<Rightarrow>
                s1\<lparr>wss_clients :=
                     wss_clients s1 @ [(h, \<lparr>readyState = OPEN, isAlive = True, clientId = cid\<rparr>)],
                   clients := (clients s1)(cid \<mapsto>
                     \<lparr>c_ws = h, c_id = cid, c_ip = ip, c_connectedAt = now,
                      c_type = JStr ''unknown'', c_isAlive = True, c_messageCount = 0\<rparr>),
                   console :=
                     console s1 @ [NewConnection cid ip (length (wss_clients s1) + 1)]\<rparr>))"

text \<open>
  The inner \<open>try\<close> of the \<open>message\<close> handler, lines 134 to 148. \<open>parse\<close> is \<open>JSON.parse\<close>,
  with \<open>None\<close> for a \<open>SyntaxError\<close>. The result is \<open>parsedData\<close> and \<open>isJson\<close>. When reading
  \<open>clientType\<close> throws, \<open>isJson\<close> has been set already and \<open>parsedData\<close> becomes the text.
  The same happens when line 144 cannot print the declared type: by then line 143 has
  stored it.
\<close>

definition parse_block ::
  "(string \<Rightarrow> jsval option) \<Rightarrow> string \<Rightarrow> string \<Rightarrow> server \<Rightarrow> (jsval \<times> bool) \<times> server" where
  "parse_block parse cid message s =
     (case parse message of
        None \<Rightarrow> ((JStr message, False), s)
      | Some v \<Rightarrow>
          (case get_prop v ''clientType'' of
             Inl e \<Rightarrow> ((JStr message, True), s)
           | Inr t \<Rightarrow>
               (case clients s cid of
                  None \<Rightarrow> ((v, True), s)
                | Some c \<Rightarrow>
                    if truthy t
                    then (case to_text t of
                            Inl e \<Rightarrow>
                              ((JStr message, True),
                               s\<lparr>clients := (clients s)(cid \<mapsto> c\<lparr>c_type := t\<rparr>)\<rparr>)
                          | Inr txt \<Rightarrow>
                              ((v, True),
                               s\<lparr>clients := (clients s)(cid \<mapsto> c\<lparr>c_type := t\<rparr>),
                                 console := console s @ [ClientTypeIdentified txt]\<rparr>))
                    else ((v, True), s))))"

text \<open>
  Line 151:
  \<open>isJson ? (parsedData.color || parsedData.message || message) : message\<close>.
\<close>

definition hexCode :: "jsval \<Rightarrow> bool \<Rightarrow> string \<Rightarrow> js_error + jsval" where
  "hexCode parsedData isJson message =
     (if isJson
      then (case get_prop parsedData ''color'' of
              Inl e \<Rightarrow> Inl e
            | Inr c \<Rightarrow>
                if truthy c then Inr c
                else (case get_prop parsedData ''message'' of
                        Inl e \<Rightarrow> Inl e
                      | Inr m \<Rightarrow> if truthy m then Inr m else Inr (JStr message)))
      else Inr (JStr message))"

text \<open>
  The token the handler forwards for a payload: lines 134 to 151 without the effects on
  the state. \<open>registered\<close> says whether the \<open>clients\<close> map has an entry for the sender, which
  is when lines 143 and 144 run.
\<close>

definition classify ::
  "(string \<Rightarrow> jsval option) \<Rightarrow> bool \<Rightarrow> string \<Rightarrow> js_error + jsval" where
  "classify parse registered message =
     (case parse message of
        None \<Rightarrow> hexCode (JStr message) False message
      | Some v \<Rightarrow>
          (case get_prop v ''clientType'' of
             Inl e \<Rightarrow> hexCode (JStr message) True message
           | Inr t \<Rightarrow>
               if registered \<and> truthy t \<and> cannot_convert t
               then hexCode (JStr message) True message
               else hexCode v True message))"

text \<open>
  The body of the outer \<open>try\<close> of the \<open>message\<close> handler (lines 119 to 157) for the socket
  \<open>h\<close> whose identity is \<open>cid\<close>, in its four parts: the message counter (lines 119 to
  122), the log of the payload (lines 127 to 131), the classification, and the broadcast
  with its log line (lines 154 to 156). Line 128 calls \<open>getClientInfo\<close> and line 156
  prints the token, so either can throw, inside the \<open>try\<close>. Then the handler with its
  \<open>catch\<close> (lines 161 to 168).
\<close>

definition count_message :: "string \<Rightarrow> server \<Rightarrow> server" where
  "count_message cid s =
     (case clients s cid of
        None \<Rightarrow> s
      | Some c \<Rightarrow>
          s\<lparr>clients := (clients s)(cid \<mapsto> c\<lparr>c_messageCount := js_incr (c_messageCount c)\<rparr>)\<rparr>)"

definition log_received :: "string \<Rightarrow> string \<Rightarrow> server \<Rightarrow> js_error + server" where
  "log_received cid message s =
     (case getClientInfo cid s of
        Inl e \<Rightarrow> Inl e
      | Inr info \<Rightarrow>
          Inr (s\<lparr>console := console s @ [MessageReceived (fst info) (snd info) message]\<rparr>))"

definition forward ::
  "send_outcome \<Rightarrow> handle \<Rightarrow> jsval \<Rightarrow> server \<Rightarrow> (js_error + jsval) \<times> server" where
  "forward thr h tok s =
     (case broadcast thr (Token tok) (Some h) s of
        (Inl e, s') \<Rightarrow> (Inl e, s')
      | (Inr u, s') \<Rightarrow>
          (case to_text tok of
             Inl e \<Rightarrow> (Inl e, s')
           | Inr txt \<Rightarrow>
               (Inr JUndefined,
                s'\<lparr>console :=
                     console s' @ [BroadcastDone txt (int (length (wss_clients s')) - 1)]\<rparr>)))"

definition message_body ::
  "(string \<Rightarrow> jsval option) \<Rightarrow> send_outcome \<Rightarrow> handle \<Rightarrow> string \<Rightarrow> string \<Rightarrow> server \<Rightarrow>
     (js_error + jsval) \<times> server" where
  "message_body parse thr h cid message s =
     (case log_received cid message (count_message cid s) of
        Inl e \<Rightarrow> (Inl e, count_message cid s)
      | Inr s2 \<Rightarrow>
          (case parse_block parse cid message s2 of
             ((parsedData, isJson), s') \<Rightarrow>
               (case hexCode parsedData isJson message of
                  Inl e \<Rightarrow> (Inl e, s')
                | Inr tok \<Rightarrow> forward thr h tok s')))"

definition on_message ::
  "(string \<Rightarrow> jsval option) \<Rightarrow> send_outcome \<Rightarrow> handle \<Rightarrow> string \<Rightarrow> server \<Rightarrow>
     (js_error + jsval) \<times> server" where
  "on_message parse thr h message s =
     (case map_of (wss_clients s) h of
        None \<Rightarrow> (Inr JUndefined, s)
      | Some ws \<Rightarrow>
          (case message_body parse thr h (clientId ws) message s of
             (Inr u, s') \<Rightarrow> (Inr JUndefined, s')
           | (Inl err, s') \<Rightarrow>
               sendToClient thr h
                 (ErrorNotice ''Failed to process message'' (error_message err))
                 (s'\<lparr>console :=
                      console s' @ [ProcessingError (clientId ws) (error_message err)]\<rparr>)))"

text \<open>
  The \<open>close\<close> handler, lines 175 to 195. The library's own listener, registered before
  the handler, has taken the socket out of \<open>wss.clients\<close>. \<open>Math.round\<close> of a number of
  milliseconds over 1000 rounds half up. The reason comes as a string or as a buffer,
  by the version of the library; a buffer is truthy also when it is empty. Line 182
  calls \<open>getClientInfo\<close> outside any \<open>try\<close>: when it throws, the handler ends there, before
  the entry is deleted (line 191) and the notice is sent (line 194).
\<close>

datatype close_reason = TextReason string | BufferReason string

fun reason_text :: "close_reason \<Rightarrow> string" where
  "reason_text (TextReason r) = (if r = [] then ''No reason provided'' else r)"
| "reason_text (BufferReason b) = b"

definition on_close ::
  "send_outcome \<Rightarrow> handle \<Rightarrow> nat \<Rightarrow> close_reason \<Rightarrow> int \<Rightarrow> server \<Rightarrow>
     (js_error + jsval) \<times> server" where
  "on_close thr h code reason now s =
     (case map_of (wss_clients s) h of
        None \<Rightarrow> (Inr JUndefined, s)
      | Some ws \<Rightarrow>
          (let s1 = s\<lparr>wss_clients := filter (\<lambda>p. fst p \<noteq> h) (wss_clients s)\<rparr>;
               cid = clientId ws;
               duration = (case clients s1 cid of
                             None \<Rightarrow> 0
                           | Some c \<Rightarrow> (now - c_connectedAt c + 500) div 1000);
               msgCount = (case clients s1 cid of None \<Rightarrow> 0 | Some c \<Rightarrow> c_messageCount c)
           in (case getClientInfo cid s1 of
                 Inl e \<Rightarrow> (Inl e, s1)
               | Inr info \<Rightarrow>
                   broadcastSystemMessage thr (''Client '' @ cid @ '' left'') None now
                     (s1\<lparr>console :=
                          console s1 @
                            [ConnectionClosed (fst info) (snd info) code (reason_text reason)
                               duration msgCount (int (length (wss_clients s1)) - 1)],
                        clients := (clients s1)(cid := None)\<rparr>))))"

text \<open>
  The \<open>error\<close> handler, lines 201 to 203, which prints \<open>getClientInfo\<close> too, and the \<open>pong\<close>
  handler, lines 211 to 217.
\<close>

definition on_error :: "handle \<Rightarrow> js_error \<Rightarrow> server \<Rightarrow> (js_error + jsval) \<times> server" where
  "on_error h e s =
     (case map_of (wss_clients s) h of
        None \<Rightarrow> (Inr JUndefined, s)
      | Some ws \<Rightarrow>
          (case getClientInfo (clientId ws) s of
             Inl e' \<Rightarrow> (Inl e', s)
           | Inr info \<Rightarrow>
               (Inr JUndefined,
                s\<lparr>console :=
                    console s @ [SocketErrorLine (fst info) (snd info) (error_message e)]\<rparr>)))"

definition update_ws ::
  "handle \<Rightarrow> (ws_conn \<Rightarrow> ws_conn) \<Rightarrow> (handle \<times> ws_conn) list \<Rightarrow> (handle \<times> ws_conn) list" where
  "update_ws h f cs = map (\<lambda>p. if fst p = h then (fst p, f (snd p)) else p) cs"

definition on_pong :: "handle \<Rightarrow> server \<Rightarrow> server" where
  "on_pong h s =
     (case map_of (wss_clients s) h of
        None \<Rightarrow> s
      | Some ws \<Rightarrow>
          (let s1 = s\<lparr>wss_clients := update_ws h (\<lambda>w. w\<lparr>isAlive := True\<rparr>) (wss_clients s)\<rparr>
           in (case clients s1 (clientId ws) of
                 None \<Rightarrow> s1
               | Some c \<Rightarrow>
                   s1\<lparr>clients := (clients s1)(clientId ws \<mapsto> c\<lparr>c_isAlive := True\<rparr>)\<rparr>)))"

text \<open>
  \<open>heartbeat\<close>, lines 274 to 284. \<open>terminate\<close> destroys the transport and leaves the socket
  \<open>CLOSING\<close> until its \<open>close\<close> event; neither \<open>terminate\<close> nor \<open>ping\<close> throws on a socket of
  the server.
\<close>

definition terminate :: "ws_conn \<Rightarrow> ws_conn" where
  "terminate ws = (if readyState ws = CLOSED then ws else ws\<lparr>readyState := CLOSING\<rparr>)"

fun heartbeat_loop ::
  "(handle \<times> ws_conn) list \<Rightarrow> (handle \<times> ws_conn) list \<times> effect list \<times> log_line list" where
  "heartbeat_loop [] = ([], [], [])"
| "heartbeat_loop ((h, ws) # rest) =
     (case heartbeat_loop rest of
        (rest', effs, logs) \<Rightarrow>
          if isAlive ws = False
          then ((h, terminate ws) # rest', Terminate h # effs,
                TerminatingInactive (clientId ws) # logs)
          else ((h, ws\<lparr>isAlive := False\<rparr>) # rest', Ping h # effs, logs))"

definition heartbeat :: "server \<Rightarrow> server" where
  "heartbeat s =
     (case heartbeat_loop (wss_clients s) of
        (cs, effs, logs) \<Rightarrow>
          s\<lparr>wss_clients := cs, effects := effects s @ effs, console := console s @ logs\<rparr>)"

text \<open>
  \<open>shutdown\<close>, lines 315 to 352. \<open>close(1001, ...)\<close> on an open socket starts the closing
  handshake and leaves it \<open>CLOSING\<close>. A \<open>send\<close> that throws ends the function there: the
  callback of \<open>wss.close\<close> and the timer are then not set up by this call.
\<close>

fun shutdown_loop ::
  "send_outcome \<Rightarrow> frame \<Rightarrow> (handle \<times> ws_conn) list \<Rightarrow>
     js_error option \<times> (handle \<times> ws_conn) list \<times> effect list" where
  "shutdown_loop thr m [] = (None, [], [])"
| "shutdown_loop thr m ((h, ws) # rest) =
     (if readyState ws = OPEN
      then (case thr h m of
              Some e \<Rightarrow> (Some e, (h, ws) # rest, [])
            | None \<Rightarrow>
                (case shutdown_loop thr m rest of
                   (r, rest', effs) \<Rightarrow>
                     (r, (h, ws\<lparr>readyState := CLOSING\<rparr>) # rest',
                      Send h m # CloseConn h 1001 ''Server shutdown'' # effs)))
      else (case shutdown_loop thr m rest of
              (r, rest', effs) \<Rightarrow> (r, (h, ws) # rest', effs)))"

definition shutdown :: "send_outcome \<Rightarrow> int \<Rightarrow> server \<Rightarrow> (js_error + jsval) \<times> server" where
  "shutdown thr now s =
     (let s1 = s\<lparr>console := console s @ [ShuttingDown], heartbeatTimer := False,
                 effects := effects s @ [ClearInterval]\<rparr>
      in (case shutdown_loop thr (SystemNotice ''Server is shutting down'' now) (wss_clients s1) of
            (Some e, cs, effs) \<Rightarrow>
              (Inl e, s1\<lparr>wss_clients := cs, effects := effects s1 @ effs\<rparr>)
          | (None, cs, effs) \<Rightarrow>
              (Inr JUndefined,
               s1\<lparr>wss_clients := cs,
                  effects := effects s1 @ effs @ [WssClose, SetTimeout 5000],
                  wss_close_cb := True, grace_timer := True\<rparr>)))"

text \<open>
  \<open>process.exit\<close>, and the three callbacks that \<open>shutdown\<close> leaves behind: the one given to
  \<open>wss.close\<close> (lines 338 to 345), the one it gives to \<open>server.close\<close> (lines 340 to 344)
  and the timer's (lines 348 to 351). Each runs only if it has been set up.
\<close>

definition process_exit :: "nat \<Rightarrow> server \<Rightarrow> server" where
  "process_exit status s = s\<lparr>exited := Some status, effects := effects s @ [Exit status]\<rparr>"

definition wss_closed :: "server \<Rightarrow> server" where
  "wss_closed s =
     (if wss_close_cb s
      then s\<lparr>console := console s @ [WssClosedLine], effects := effects s @ [ServerClose],
             wss_close_cb := False, http_close_cb := True\<rparr>
      else s)"

definition http_closed :: "server \<Rightarrow> server" where
  "http_closed s =
     (if http_close_cb s
      then process_exit 0 (s\<lparr>console := console s @ [HttpClosedLine], http_close_cb := False\<rparr>)
      else s)"

definition grace_timeout :: "server \<Rightarrow> server" where
  "grace_timeout s =
     (if grace_timer s
      then process_exit 1 (s\<lparr>console := console s @ [ForcedShutdown], grace_timer := False\<rparr>)
      else s)"

text \<open>
  The \<open>uncaughtException\<close> handler, lines 359 to 362, and what the runtime does with the
  outcome of a handler it called: an error that leaves the handler goes to
  \<open>uncaughtException\<close>, and an error that leaves that handler too ends the process with
  status 7.
\<close>

definition uncaughtException :: "send_outcome \<Rightarrow> js_error \<Rightarrow> int \<Rightarrow> server \<Rightarrow> server" where
  "uncaughtException thr e now s =
     (case shutdown thr now (s\<lparr>console := console s @ [UncaughtExceptionLine e]\<rparr>) of
        (Inr u, s') \<Rightarrow> s'
      | (Inl e', s') \<Rightarrow> process_exit 7 s')"

definition top_level ::
  "send_outcome \<Rightarrow> int \<Rightarrow> (js_error + jsval) \<times> server \<Rightarrow> server" where
  "top_level thr now r =
     (case r of (Inr u, s) \<Rightarrow> s | (Inl e, s) \<Rightarrow> uncaughtException thr e now s)"

text \<open>
  The events the runtime delivers to the module, each with the clock's reading, and the
  server's reaction. The heartbeat runs only while its interval is set, and nothing runs
  once the process has exited.
\<close>

datatype event =
    Connection handle string
  | Message handle string
  | CloseEvent handle nat close_reason
  | SocketError handle js_error
  | Pong handle
  | HeartbeatTick
  | TerminationSignal
  | UncaughtFault js_error
  | WssClosed
  | HttpClosed
  | GraceTimeout

definition step ::
  "(string \<Rightarrow> jsval option) \<Rightarrow> send_outcome \<Rightarrow> int \<times> event \<Rightarrow> server \<Rightarrow> server" where
  "step parse thr te s =
     (if exited s \<noteq> None then s
      else (case te of
              (now, Connection h ip) \<Rightarrow> on_connection h ip now s
            | (now, Message h d) \<Rightarrow> top_level thr now (on_message parse thr h d s)
            | (now, CloseEvent h code reason) \<Rightarrow> top_level thr now (on_close thr h code reason now s)
            | (now, SocketError h e) \<Rightarrow> top_level thr now (on_error h e s)
            | (now, Pong h) \<Rightarrow> on_pong h s
            | (now, HeartbeatTick) \<Rightarrow> (if heartbeatTimer s then heartbeat s else s)
            | (now, TerminationSignal) \<Rightarrow> top_level thr now (shutdown thr now s)
            | (now, UncaughtFault e) \<Rightarrow> uncaughtException thr e now s
            | (now, WssClosed) \<Rightarrow> wss_closed s
            | (now, HttpClosed) \<Rightarrow> http_closed s
            | (now, GraceTimeout) \<Rightarrow> grace_timeout s))"

fun run ::
  "(string \<Rightarrow> jsval option) \<Rightarrow> send_outcome \<Rightarrow> (int \<times> event) list \<Rightarrow> server \<Rightarrow> server" where
  "run parse thr [] s = s"
| "run parse thr (te # tes) s = run parse thr tes (step parse thr te s)"

text \<open>The identities handed out so far, oldest first, as the \<open>New connection\<close> lines show them.\<close>

fun assigned_identities :: "log_line list \<Rightarrow> string list" where
  "assigned_identities [] = []"
| "assigned_identities (NewConnection cid ip n # ls) = cid # assigned_identities ls"
| "assigned_identities (l # ls) = assigned_identities ls"

section \<open>Vocabulary of the properties and example states\<close>

text \<open>
  The connections \<open>broadcast\<close> is to reach: those in \<open>wss.clients\<close> that are not the sender
  and are \<open>OPEN\<close>, in the order of the set.
\<close>

definition open_others :: "handle option \<Rightarrow> server \<Rightarrow> handle list" where
  "open_others sender s =
     map fst (filter (\<lambda>p. Some (fst p) \<noteq> sender \<and> readyState (snd p) = OPEN) (wss_clients s))"

text \<open>Two environments for \<open>send\<close>: it never throws, or it throws on one socket.\<close>

definition never_throws :: send_outcome where
  "never_throws h m = None"

definition throws_on :: "handle \<Rightarrow> send_outcome" where
  "throws_on bad h m = (if h = bad then Some (Error ''send failed'') else None)"

text \<open>
  Example states: three open connections as three \<open>connection\<close> events leave them, and
  a sender whose only peer is in its closing handshake.
\<close>

definition new_client :: "handle \<Rightarrow> string \<Rightarrow> client" where
  "new_client h cid =
     \<lparr>c_ws = h, c_id = cid, c_ip = ''10.0.0.1'', c_connectedAt = 0, c_type = JStr ''unknown'',
      c_isAlive = True, c_messageCount = 0\<rparr>"

definition three_clients :: server where
  "three_clients =
     initial_server
       \<lparr>wss_clients :=
          [(1, \<lparr>readyState = OPEN, isAlive = True, clientId = ''client_1''\<rparr>),
           (2, \<lparr>readyState = OPEN, isAlive = True, clientId = ''client_2''\<rparr>),
           (3, \<lparr>readyState = OPEN, isAlive = True, clientId = ''client_3''\<rparr>)],
        clients :=
          [''client_1'' \<mapsto> new_client 1 ''client_1'', ''client_2'' \<mapsto> new_client 2 ''client_2'',
           ''client_3'' \<mapsto> new_client 3 ''client_3''],
        clientIdCounter := 4\<rparr>"

definition sender_and_closing :: server where
  "sender_and_closing =
     initial_server
       \<lparr>wss_clients :=
          [(1, \<lparr>readyState = OPEN, isAlive = True, clientId = ''client_1''\<rparr>),
           (2, \<lparr>readyState = CLOSING, isAlive = True, clientId = ''client_2''\<rparr>)],
        clients :=
          [''client_1'' \<mapsto> new_client 1 ''client_1'', ''client_2'' \<mapsto> new_client 2 ''client_2''],
        clientIdCounter := 3\<rparr>"

text \<open>
  The value of a field of a parsed payload: the stored value when the payload is an object
  that has the key, \<open>undefined\<close> otherwise.
\<close>

definition field :: "jsval \<Rightarrow> string \<Rightarrow> jsval" where
  "field v k =
     (case v of
        JObj kvs \<Rightarrow> (case map_of kvs k of None \<Rightarrow> JUndefined | Some x \<Rightarrow> x)
      | _ \<Rightarrow> JUndefined)"

text \<open>What the server has done between two states: the calls added to the trace.\<close>

definition effects_since :: "server \<Rightarrow> server \<Rightarrow> effect list" where
  "effects_since s s' = drop (length (effects s)) (effects s')"

text \<open>
  \<open>JSON.parse\<close> on the payloads used as examples: the objects of the interface with their
  \<open>color\<close>, \<open>message\<close> and \<open>clientType\<close>, two objects whose \<open>clientType\<close> is an object with a
  key \<open>toString\<close>, the literal \<open>null\<close>, and \<open>red\<close>, which is not JSON and fails to parse.
  The table is used at these payloads only.
\<close>

definition example_parse :: "string \<Rightarrow> jsval option" where
  \<open>example_parse text =
     (if text = ''{"color":"#FF0000","clientType":"unity"}''
      then Some (JObj [(''color'', JStr ''#FF0000''), (''clientType'', JStr ''unity'')])
      else if text = ''{"color":"#00FF00","clientType":"web"}''
      then Some (JObj [(''color'', JStr ''#00FF00''), (''clientType'', JStr ''web'')])
      else if text = ''{"message":"#00FF00"}''
      then Some (JObj [(''message'', JStr ''#00FF00'')])
      else if text = ''{"color":"","message":"#00FF00"}''
      then Some (JObj [(''color'', JStr []), (''message'', JStr ''#00FF00'')])
      else if text = ''{"clientType":{"toString":1}}''
      then Some (JObj [(''clientType'', JObj [(''toString'', JNum 1)])])
      else if text = ''{"color":"#FF0000","clientType":{"toString":1}}''
      then Some (JObj [(''color'', JStr ''#FF0000''),
                       (''clientType'', JObj [(''toString'', JNum 1)])])
      else if text = ''null''
      then Some JNull
      else None)\<close>

text \<open>
  The \<open>clientType\<close> a payload declares: the value of that property when the payload parses
  and the value is truthy, which is when the handler stores it. \<open>role_of\<close> is the \<open>type\<close>
  the \<open>clients\<close> map holds for an identity.
\<close>

definition declared_role :: "(string \<Rightarrow> jsval option) \<Rightarrow> string \<Rightarrow> jsval option" where
  "declared_role parse message =
     (case parse message of
        None \<Rightarrow> None
      | Some v \<Rightarrow>
          (case get_prop v ''clientType'' of
             Inl e \<Rightarrow> None
           | Inr t \<Rightarrow> if truthy t then Some t else None))"

definition role_of :: "server \<Rightarrow> string \<Rightarrow> jsval option" where
  "role_of s cid = map_option c_type (clients s cid)"

text \<open>
  The role stored for an identity can be printed (or there is no entry), so that
  \<open>getClientInfo\<close> returns for it; and a payload declares a \<open>clientType\<close> that cannot be
  printed.
\<close>

definition printable_role :: "server \<Rightarrow> string \<Rightarrow> bool" where
  "printable_role s cid =
     (case clients s cid of None \<Rightarrow> True | Some c \<Rightarrow> \<not> cannot_convert (c_type c))"

definition unprintable_declaration :: "(string \<Rightarrow> jsval option) \<Rightarrow> string \<Rightarrow> bool" where
  "unprintable_declaration parse message =
     (case declared_role parse message of None \<Rightarrow> False | Some t \<Rightarrow> cannot_convert t)"

text \<open>
  The relation of two states of which the second differs from the first by changed
  metadata, further console lines, none of them a \<open>New connection\<close> line, and further calls.
\<close>

definition relays :: "server \<Rightarrow> server \<Rightarrow> bool" where
  "relays s s' \<longleftrightarrow>
     (\<exists>cl ls efs.
        s' = s\<lparr>clients := cl, console := console s @ ls, effects := effects s @ efs\<rparr> \<and>
        assigned_identities ls = [])"

text \<open>
  The \<open>connection\<close> events among the events, a run of \<open>n\<close> connections of new sockets, and
  the relation of two states that have the same counter and have handed out the same
  identities.
\<close>

fun is_connection :: "int \<times> event \<Rightarrow> bool" where
  "is_connection (now, Connection h ip) = True"
| "is_connection (now, ev) = False"

fun connections :: "nat \<Rightarrow> (int \<times> event) list" where
  "connections 0 = []"
| "connections (Suc n) = connections n @ [(0, Connection n ''10.0.0.1'')]"

definition same_identities :: "server \<Rightarrow> server \<Rightarrow> bool" where
  "same_identities s s' \<longleftrightarrow>
     clientIdCounter s' = clientIdCounter s \<and>
     assigned_identities (console s') = assigned_identities (console s)"

text \<open>
  What one heartbeat cycle does to a connection, by its flag, and the notice the \<open>close\<close>
  handler broadcasts for an identity.
\<close>

definition probe_or_terminate :: "handle \<times> ws_conn \<Rightarrow> effect" where
  "probe_or_terminate p = (if isAlive (snd p) then Ping (fst p) else Terminate (fst p))"

definition departure_notice :: "string \<Rightarrow> int \<Rightarrow> frame" where
  "departure_notice cid now = SystemNotice (''Client '' @ cid @ '' left'') now"

text \<open>
  Vocabulary of the shutdown: the events of normal service (connections, messages,
  closes, socket errors, pongs, heartbeat ticks) as against signals, faults and the three
  callbacks of the teardown; the notice \<open>shutdown\<close> sends and the two calls it makes on an
  open connection; and the relation of two states of which the second has the exit
  status of the first and still has every callback and timer pending that the first had.
\<close>

fun is_ordinary :: "int \<times> event \<Rightarrow> bool" where
  "is_ordinary (now, TerminationSignal) = False"
| "is_ordinary (now, UncaughtFault e) = False"
| "is_ordinary (now, WssClosed) = False"
| "is_ordinary (now, HttpClosed) = False"
| "is_ordinary (now, GraceTimeout) = False"
| "is_ordinary (now, ev) = True"

definition shutdown_notice :: "int \<Rightarrow> frame" where
  "shutdown_notice now = SystemNotice ''Server is shutting down'' now"

definition notify_and_close :: "frame \<Rightarrow> handle \<Rightarrow> effect list" where
  "notify_and_close m h = [Send h m, CloseConn h 1001 ''Server shutdown'']"

definition keeps_pending :: "server \<Rightarrow> server \<Rightarrow> bool" where
  "keeps_pending s s' \<longleftrightarrow>
     exited s' = exited s \<and> (wss_close_cb s \<longrightarrow> wss_close_cb s') \<and>
     (http_close_cb s \<longrightarrow> http_close_cb s') \<and> (grace_timer s \<longrightarrow> grace_timer s')"

text \<open>A structured payload whose \<open>clientType\<close> is an object that cannot be printed.\<close>

definition unprintable_type_payload :: string where
  \<open>unprintable_type_payload = ''{"clientType":{"toString":1}}''\<close>

text \<open>
  Two runs from the state with three open connections. In the first, connection 1 sends
  the payload with the unprintable \<open>clientType\<close> and then closes. In the second,
  connection 2 sends it and then answers no ping, while the two others answer: the second
  heartbeat terminates it and its \<open>close\<close> event follows.
\<close>

definition close_after_unprintable :: "(int \<times> event) list" where
  "close_after_unprintable =
     [(1, Message 1 unprintable_type_payload), (2, CloseEvent 1 1000 (BufferReason []))]"

definition eviction_after_unprintable :: "(int \<times> event) list" where
  "eviction_after_unprintable =
     [(1, Message 2 unprintable_type_payload), (2, HeartbeatTick), (3, Pong 1), (3, Pong 3),
      (4, HeartbeatTick), (5, CloseEvent 2 1006 (BufferReason []))]"

section \<open>Properties of the browser client\<close>

text \<open>
  Claim C10. \<open>sendData\<close> is total: it never throws to its caller; with the socket absent or
  not \<open>OPEN\<close> it returns \<open>false\<close> and hands nothing to the socket; it returns \<open>true\<close> exactly
  when the socket is open and the send does not raise, and then exactly the given data has
  been handed to the socket; a send that raises is caught and the result is \<open>false\<close>.
\<close>

theorem sendData_total:
  "(\<exists>b. fst (sendData throws data p) = Inr b) \<and>
   (fst (sendData throws data p) = Inr True \<longleftrightarrow> socket_open p \<and> throws data = None) \<and>
   (fst (sendData throws data p) = Inr True \<longrightarrow>
      frames_sent (snd (sendData throws data p)) = frames_sent p @ [data]) \<and>
   (fst (sendData throws data p) \<noteq> Inr True \<longrightarrow>
      fst (sendData throws data p) = Inr False \<and>
      frames_sent (snd (sendData throws data p)) = frames_sent p)"
  by (auto simp: sendData_def websocket_send_def socket_open_def frames_sent_def
      displayMessage_def split: option.splits)

theorem sendData_total_witness:
  "fst (sendData (\<lambda>d. None) ''#FF0000''
      \<lparr>websocket = Some \<lparr>cs_readyState = OPEN, cs_sent = []\<rparr>, messageDisplay_text = [],
        messageDisplay_class = None, page_console = []\<rparr>) = Inr True \<and>
   frames_sent (snd (sendData (\<lambda>d. None) ''#FF0000''
      \<lparr>websocket = Some \<lparr>cs_readyState = OPEN, cs_sent = []\<rparr>, messageDisplay_text = [],
        messageDisplay_class = None, page_console = []\<rparr>)) = [''#FF0000''] \<and>
   fst (sendData (\<lambda>d. Some (Error ''boom'')) ''#FF0000''
      \<lparr>websocket = Some \<lparr>cs_readyState = OPEN, cs_sent = []\<rparr>, messageDisplay_text = [],
        messageDisplay_class = None, page_console = []\<rparr>) = Inr False \<and>
   fst (sendData (\<lambda>d. None) ''#FF0000''
      \<lparr>websocket = None, messageDisplay_text = [],
        messageDisplay_class = None, page_console = []\<rparr>) = Inr False"
  using sendData_total [of "\<lambda>d. None" "''#FF0000''"
      "\<lparr>websocket = Some \<lparr>cs_readyState = OPEN, cs_sent = []\<rparr>, messageDisplay_text = [],
        messageDisplay_class = None, page_console = []\<rparr>"]
    sendData_total [of "\<lambda>d. Some (Error ''boom'')" "''#FF0000''"
      "\<lparr>websocket = Some \<lparr>cs_readyState = OPEN, cs_sent = []\<rparr>, messageDisplay_text = [],
        messageDisplay_class = None, page_console = []\<rparr>"]
    sendData_total [of "\<lambda>d. None" "''#FF0000''"
      "\<lparr>websocket = None, messageDisplay_text = [],
        messageDisplay_class = None, page_console = []\<rparr>"]
  by (simp add: socket_open_def frames_sent_def)

section \<open>Properties of \<open>broadcast\<close>\<close>

lemma broadcast_loop_ok:
  "\<forall>p \<in> set cs. Some (fst p) \<noteq> sender \<and> readyState (snd p) = OPEN \<longrightarrow> thr (fst p) m = None \<Longrightarrow>
   broadcast_loop thr m sender cs =
     (None, map (\<lambda>h. Send h m)
        (map fst (filter (\<lambda>p. Some (fst p) \<noteq> sender \<and> readyState (snd p) = OPEN) cs)))"
  by (induction cs) (auto split: option.splits)

lemma map_of_open_iff:
  "distinct (map fst cs) \<Longrightarrow>
   (h \<in> set (map fst (filter (\<lambda>p. Some (fst p) \<noteq> sender \<and> readyState (snd p) = OPEN) cs))) =
   ((case map_of cs h of None \<Rightarrow> CLOSED | Some ws \<Rightarrow> readyState ws) = OPEN \<and> Some h \<noteq> sender)"
  by (induction cs) (auto split: option.splits simp: rev_image_eqI)

lemma broadcast_ok:
  assumes "\<forall>h \<in> set (open_others sender s). thr h m = None"
  shows "broadcast thr m sender s =
           (Inr JUndefined,
            s\<lparr>effects := effects s @ map (\<lambda>h. Send h m) (open_others sender s)\<rparr>)"
proof -
  have "\<forall>p \<in> set (wss_clients s).
          Some (fst p) \<noteq> sender \<and> readyState (snd p) = OPEN \<longrightarrow> thr (fst p) m = None"
    using assms by (force simp: open_others_def)
  then have "broadcast_loop thr m sender (wss_clients s) =
               (None, map (\<lambda>h. Send h m) (open_others sender s))"
    unfolding open_others_def by (rule broadcast_loop_ok)
  then show ?thesis
    by (simp add: broadcast_def split: prod.splits)
qed

lemma open_others_distinct:
  "distinct (map fst (wss_clients s)) \<Longrightarrow> distinct (open_others sender s)"
  unfolding open_others_def by (simp add: distinct_map_filter)

lemma open_others_iff:
  "distinct (map fst (wss_clients s)) \<Longrightarrow>
   h \<in> set (open_others sender s) \<longleftrightarrow> ws_readyState s h = OPEN \<and> Some h \<noteq> sender"
  unfolding open_others_def ws_readyState_def by (rule map_of_open_iff)

text \<open>
  Claim C1. \<open>wss.clients\<close> is a set, so no socket occurs in it twice. When no \<open>send\<close> to a
  target throws, \<open>broadcast\<close> returns and what it has done is one \<open>send\<close> of the token for
  each element of \<open>open_others\<close>, a list without repetition that holds exactly the open
  connections other than the sender: each of the M gets the token exactly once, and the
  sender gets nothing.
\<close>

theorem broadcast_exclusion:
  assumes "distinct (map fst (wss_clients s))"
    and "\<forall>h \<in> set (open_others sender s). thr h m = None"
  shows "broadcast thr m sender s =
           (Inr JUndefined,
            s\<lparr>effects := effects s @ map (\<lambda>h. Send h m) (open_others sender s)\<rparr>) \<and>
         distinct (open_others sender s) \<and>
         (\<forall>h. h \<in> set (open_others sender s) \<longleftrightarrow>
                ws_readyState s h = OPEN \<and> Some h \<noteq> sender)"
proof -
  have a: "broadcast thr m sender s =
           (Inr JUndefined,
            s\<lparr>effects := effects s @ map (\<lambda>h. Send h m) (open_others sender s)\<rparr>)"
    using assms(2) by (rule broadcast_ok)
  have b: "distinct (open_others sender s)"
    using assms(1) by (rule open_others_distinct)
  have c: "\<forall>h. h \<in> set (open_others sender s) \<longleftrightarrow>
                ws_readyState s h = OPEN \<and> Some h \<noteq> sender"
    using assms(1) by (simp add: open_others_iff)
  from a b c show ?thesis by blast
qed

theorem broadcast_exclusion_witness:
  "distinct (map fst (wss_clients three_clients)) \<and>
   open_others (Some 1) three_clients = [2, 3] \<and>
   never_throws 2 (Token (JStr ''red'')) = None \<and>
   never_throws 3 (Token (JStr ''red'')) = None \<and>
   effects (snd (broadcast never_throws (Token (JStr ''red'')) (Some 1) three_clients)) =
     [Send 2 (Token (JStr ''red'')), Send 3 (Token (JStr ''red''))]"
proof -
  have d: "distinct (map fst (wss_clients three_clients))"
    by (simp add: three_clients_def)
  have t: "\<forall>h \<in> set (open_others (Some 1) three_clients).
             never_throws h (Token (JStr ''red'')) = None"
    by (simp add: never_throws_def)
  have o: "open_others (Some 1) three_clients = [2, 3]"
    by (simp add: open_others_def three_clients_def)
  have e: "effects three_clients = []"
    by (simp add: three_clients_def initial_server_def)
  show ?thesis
    using d t o e
      broadcast_exclusion [of three_clients "Some 1" never_throws "Token (JStr ''red'')"]
    by simp
qed

text \<open>
  Claim C2, at a failing input. Three open connections; the first sends a token and the
  \<open>send\<close> to the second throws. \<open>broadcast\<close> has no \<open>try\<close>: the error leaves it, and the
  third connection, open and later in the set, is sent nothing.
\<close>

theorem broadcast_send_failure_propagates:
  "broadcast (throws_on 2) (Token (JStr ''red'')) (Some 1) three_clients =
     (Inl (Error ''send failed''), three_clients) \<and>
   ws_readyState three_clients 3 = OPEN \<and>
   Send 3 (Token (JStr ''red'')) \<notin>
     set (effects (snd (broadcast (throws_on 2) (Token (JStr ''red'')) (Some 1) three_clients)))"
  by (simp add: broadcast_def throws_on_def three_clients_def initial_server_def ws_readyState_def)

section \<open>Properties of the message handler\<close>

lemma cannot_convert_truthy: "cannot_convert v \<Longrightarrow> truthy v"
  by (cases v) auto

lemma to_text_cases:
  "to_text v = (if cannot_convert v then Inl (Error ''Cannot convert object to primitive value'')
                else Inr v)"
  by (simp add: to_text_def)

lemma getClientInfo_printable:
  "printable_role s cid \<Longrightarrow>
   getClientInfo cid s =
     Inr (cid, map_option (\<lambda>c. if truthy (c_type c) then c_type c else JStr ''unknown'')
                 (clients s cid))"
  by (auto simp: getClientInfo_def printable_role_def to_text_def split: option.splits)

lemma getClientInfo_unprintable:
  "\<not> printable_role s cid \<Longrightarrow>
   getClientInfo cid s = Inl (Error ''Cannot convert object to primitive value'')"
  by (auto simp: getClientInfo_def printable_role_def to_text_def cannot_convert_truthy
      split: option.splits)

lemma assigned_identities_append [simp]:
  "assigned_identities (xs @ ys) = assigned_identities xs @ assigned_identities ys"
  by (induction xs rule: assigned_identities.induct) auto

lemma relays_refl [simp]: "relays s s"
proof -
  have "s = s\<lparr>clients := clients s, console := console s @ [], effects := effects s @ []\<rparr>"
    by simp
  then show ?thesis unfolding relays_def by (metis assigned_identities.simps(1))
qed

lemma relays_trans: "relays s s' \<Longrightarrow> relays s' s'' \<Longrightarrow> relays s s''"
proof -
  assume "relays s s'" and "relays s' s''"
  then obtain cl ls efs cl' ls' efs' where
    a: "s' = s\<lparr>clients := cl, console := console s @ ls, effects := effects s @ efs\<rparr>"
      "assigned_identities ls = []"
    and b: "s'' = s'\<lparr>clients := cl', console := console s' @ ls', effects := effects s' @ efs'\<rparr>"
      "assigned_identities ls' = []"
    unfolding relays_def by blast
  have "s'' = s\<lparr>clients := cl', console := console s @ (ls @ ls'),
                effects := effects s @ (efs @ efs')\<rparr>"
    by (simp add: a(1) b(1))
  moreover have "assigned_identities (ls @ ls') = []"
    by (simp add: a(2) b(2))
  ultimately show ?thesis unfolding relays_def by blast
qed

lemma relaysI:
  "assigned_identities ls = [] \<Longrightarrow>
   relays s (s\<lparr>clients := cl, console := console s @ ls, effects := effects s @ efs\<rparr>)"
  unfolding relays_def by blast

lemma relays_clients: "relays s (s\<lparr>clients := cl\<rparr>)"
  using relaysI [where ls = "[]" and s = s and cl = cl and efs = "[]"] by simp

lemma relays_console: "assigned_identities ls = [] \<Longrightarrow> relays s (s\<lparr>console := console s @ ls\<rparr>)"
  using relaysI [where ls = ls and s = s and cl = "clients s" and efs = "[]"] by simp

lemma relays_effects: "relays s (s\<lparr>effects := effects s @ efs\<rparr>)"
  using relaysI [where ls = "[]" and s = s and cl = "clients s" and efs = efs] by simp

lemma relays_fields:
  assumes "relays s s'"
  shows "wss_clients s' = wss_clients s" and "exited s' = exited s"
    and "clientIdCounter s' = clientIdCounter s"
    and "assigned_identities (console s') = assigned_identities (console s)"
    and "wss_close_cb s' = wss_close_cb s" and "http_close_cb s' = http_close_cb s"
    and "grace_timer s' = grace_timer s" and "heartbeatTimer s' = heartbeatTimer s"
  using assms unfolding relays_def by auto

lemma count_message_relays: "relays s (count_message cid s)"
  by (auto simp: count_message_def relays_clients split: option.splits)

lemma count_message_printable:
  "printable_role (count_message cid s) cid' = printable_role s cid'"
  by (auto simp: count_message_def printable_role_def split: option.splits)

lemma count_message_role: "role_of (count_message cid s) cid' = role_of s cid'"
  by (auto simp: count_message_def role_of_def split: option.splits)

lemma count_message_registered:
  "(clients (count_message cid s) cid' = None) = (clients s cid' = None)"
  by (auto simp: count_message_def split: option.splits)

lemma log_received_printable:
  assumes "printable_role s cid"
  shows "\<exists>l. log_received cid message s = Inr (s\<lparr>console := console s @ [l]\<rparr>) \<and>
       assigned_identities [l] = []"
proof -
  let ?l = "MessageReceived cid
              (map_option (\<lambda>c. if truthy (c_type c) then c_type c else JStr ''unknown'')
                 (clients s cid)) message"
  have "log_received cid message s = Inr (s\<lparr>console := console s @ [?l]\<rparr>)"
    using assms by (simp add: log_received_def getClientInfo_printable)
  moreover have "assigned_identities [?l] = []" by simp
  ultimately show ?thesis by blast
qed

lemma log_received_unprintable:
  "\<not> printable_role s cid \<Longrightarrow>
   log_received cid message s = Inl (Error ''Cannot convert object to primitive value'')"
  by (simp add: log_received_def getClientInfo_unprintable)

lemma parse_block_classify:
  "parse_block parse cid message s = ((pd, ij), s') \<Longrightarrow>
   hexCode pd ij message = classify parse (clients s cid \<noteq> None) message"
  by (auto simp: parse_block_def classify_def to_text_def
      split: option.splits sum.splits if_splits)

lemma parse_block_relays: "relays s (snd (parse_block parse cid message s))"
  by (auto simp: parse_block_def to_text_def relays_clients
      intro: relaysI [where efs = "[]", simplified]
      split: option.splits sum.splits)

lemma get_prop_field: "v \<noteq> JNull \<Longrightarrow> v \<noteq> JUndefined \<Longrightarrow> get_prop v k = Inr (field v k)"
  by (cases v) (auto simp: field_def)

lemma hexCode_value:
  "v \<noteq> JNull \<Longrightarrow> v \<noteq> JUndefined \<Longrightarrow>
   hexCode v True message =
     Inr (if truthy (field v ''color'') then field v ''color''
          else if truthy (field v ''message'') then field v ''message'' else JStr message)"
  by (simp add: hexCode_def get_prop_field)

lemma hexCode_text:
  "hexCode (JStr message) b message = Inr (JStr message)"
  by (simp add: hexCode_def)

lemma field_JStr [simp]: "field (JStr x) k = JUndefined" "field JNull k = JUndefined"
  "field JUndefined k = JUndefined"
  by (simp_all add: field_def)

lemma declared_role_field:
  "declared_role parse message =
     (case parse message of
        None \<Rightarrow> None
      | Some v \<Rightarrow> if truthy (field v ''clientType'') then Some (field v ''clientType'') else None)"
proof (cases "parse message")
  case None
  then show ?thesis by (simp add: declared_role_def)
next
  case (Some v)
  show ?thesis
  proof (cases "v = JNull \<or> v = JUndefined")
    case True
    then show ?thesis using Some by (auto simp: declared_role_def)
  next
    case False
    then show ?thesis using Some by (simp add: declared_role_def get_prop_field)
  qed
qed

lemma classify_value:
  "classify parse registered message =
     Inr (case parse message of
            None \<Rightarrow> JStr message
          | Some v \<Rightarrow>
              if registered \<and> unprintable_declaration parse message then JStr message
              else if truthy (field v ''color'') then field v ''color''
              else if truthy (field v ''message'') then field v ''message''
              else JStr message)"
proof (cases "parse message")
  case None
  then show ?thesis by (simp add: classify_def hexCode_text)
next
  case (Some v)
  show ?thesis
  proof (cases "v = JNull \<or> v = JUndefined")
    case True
    then show ?thesis using Some by (auto simp: classify_def hexCode_text)
  next
    case False
    then have g: "get_prop v ''clientType'' = Inr (field v ''clientType'')"
      by (simp add: get_prop_field)
    have u: "unprintable_declaration parse message =
               (truthy (field v ''clientType'') \<and> cannot_convert (field v ''clientType''))"
      using Some by (simp add: unprintable_declaration_def declared_role_field)
    show ?thesis
      using Some False g u by (simp add: classify_def hexCode_value hexCode_text)
  qed
qed

lemma broadcast_loop_targets:
  "set (snd (broadcast_loop thr m (Some c) cs)) \<subseteq> {Send h m | h. h \<noteq> c}"
  by (induction cs) (auto split: option.splits prod.splits if_splits)

lemma broadcast_since:
  "effects (snd (broadcast thr m sender s)) =
     effects s @ snd (broadcast_loop thr m sender (wss_clients s))"
  by (simp add: broadcast_def split: prod.splits)

lemma broadcast_relays: "relays s (snd (broadcast thr m sender s))"
  by (auto simp: broadcast_def relays_effects split: prod.splits)

lemma effects_sinceI: "effects s' = effects s @ effs \<Longrightarrow> effects_since s s' = effs"
  by (simp add: effects_since_def)

lemma forward_effects:
  "effects (snd (forward thr h tok s)) =
     effects s @ snd (broadcast_loop thr (Token tok) (Some h) (wss_clients s))"
  using broadcast_since [of thr "Token tok" "Some h" s]
  by (auto simp: forward_def split: prod.splits sum.splits)

lemma forward_relays: "relays s (snd (forward thr h tok s))"
proof -
  obtain r s' where b: "broadcast thr (Token tok) (Some h) s = (r, s')" by (metis surj_pair)
  have a: "relays s s'" using broadcast_relays [of s thr "Token tok" "Some h"] b by simp
  have "relays s' (s'\<lparr>console :=
          console s' @ [BroadcastDone tok (int (length (wss_clients s')) - 1)]\<rparr>)"
    by (rule relays_console) simp
  with a have c: "relays s (s'\<lparr>console :=
          console s' @ [BroadcastDone tok (int (length (wss_clients s')) - 1)]\<rparr>)"
    by (rule relays_trans)
  show ?thesis
    using a c by (cases r) (auto simp: forward_def b to_text_def)
qed

lemma sendToClient_effects:
  "\<exists>extra. effects (snd (sendToClient thr h m s)) = effects s @ extra \<and> set extra \<subseteq> {Send h m}"
  by (auto simp: sendToClient_def split: option.splits)

lemma sendToClient_returns: "fst (sendToClient thr h m s) = Inr JUndefined"
  by (auto simp: sendToClient_def split: option.splits)

lemma sendToClient_relays: "relays s (snd (sendToClient thr h m s))"
  by (auto simp: sendToClient_def relays_effects relays_console split: option.splits)

lemma message_body_relays: "relays s (snd (message_body parse thr h cid message s))"
proof -
  let ?s1 = "count_message cid s"
  have r1: "relays s ?s1" by (rule count_message_relays)
  show ?thesis
  proof (cases "printable_role ?s1 cid")
    case False
    then show ?thesis
      using r1 by (simp add: message_body_def log_received_unprintable)
  next
    case True
    then obtain l where l: "log_received cid message ?s1 = Inr (?s1\<lparr>console := console ?s1 @ [l]\<rparr>)"
      "assigned_identities [l] = []"
      using log_received_printable by blast
    let ?s2 = "?s1\<lparr>console := console ?s1 @ [l]\<rparr>"
    have r2: "relays s ?s2"
      using relays_trans [OF r1 relays_console [OF l(2)]] .
    obtain pd ij s3 where pb: "parse_block parse cid message ?s2 = ((pd, ij), s3)"
      by (metis surj_pair)
    have r3: "relays s s3"
      using relays_trans [OF r2 parse_block_relays [of ?s2 parse cid message]] pb by simp
    show ?thesis
    proof (cases "hexCode pd ij message")
      case (Inl e)
      then show ?thesis using r3 by (simp add: message_body_def l(1) pb)
    next
      case (Inr tok)
      then show ?thesis
        using relays_trans [OF r3 forward_relays [of s3 thr h tok]]
        by (simp add: message_body_def l(1) pb)
    qed
  qed
qed

lemma on_message_relays: "relays s (snd (on_message parse thr h message s))"
proof (cases "map_of (wss_clients s) h")
  case None
  then show ?thesis by (simp add: on_message_def)
next
  case (Some ws)
  obtain r s' where mb: "message_body parse thr h (clientId ws) message s = (r, s')"
    by (metis surj_pair)
  have a: "relays s s'"
    using message_body_relays [of s parse thr h "clientId ws" message] mb by simp
  show ?thesis
  proof (cases r)
    case (Inr u)
    then show ?thesis using a by (simp add: on_message_def Some mb)
  next
    case (Inl err)
    let ?s'' = "s'\<lparr>console := console s' @ [ProcessingError (clientId ws) (error_message err)]\<rparr>"
    have "relays s' ?s''" by (rule relays_console) simp
    with a have "relays s ?s''" by (rule relays_trans)
    from relays_trans [OF this sendToClient_relays]
    show ?thesis by (simp add: on_message_def Some mb Inl)
  qed
qed

lemma on_message_returns: "fst (on_message parse thr h message s) = Inr JUndefined"
  by (auto simp: on_message_def sendToClient_returns split: option.splits prod.splits sum.splits)

lemma classification_returns: "\<exists>tok. classify parse registered message = Inr tok"
  by (simp add: classify_value)

lemma parse_block_unchanged:
  "wss_clients (snd (parse_block parse cid message s)) = wss_clients s"
  "effects (snd (parse_block parse cid message s)) = effects s"
  by (auto simp: parse_block_def to_text_def split: option.splits sum.splits)

lemma message_body_forward:
  assumes "printable_role s cid"
    and "classify parse (clients s cid \<noteq> None) message = Inr tok"
  shows "\<exists>s'. message_body parse thr h cid message s = forward thr h tok s' \<and>
           wss_clients s' = wss_clients s \<and> effects s' = effects s"
proof -
  let ?s1 = "count_message cid s"
  have p1: "printable_role ?s1 cid" using assms(1) by (simp add: count_message_printable)
  then obtain l where l: "log_received cid message ?s1 = Inr (?s1\<lparr>console := console ?s1 @ [l]\<rparr>)"
    using log_received_printable by blast
  let ?s2 = "?s1\<lparr>console := console ?s1 @ [l]\<rparr>"
  have w2: "wss_clients ?s2 = wss_clients s" "effects ?s2 = effects s"
    "(clients ?s2 cid \<noteq> None) = (clients s cid \<noteq> None)"
    by (auto simp: count_message_def split: option.splits)
  obtain pd ij s3 where pb: "parse_block parse cid message ?s2 = ((pd, ij), s3)"
    by (metis surj_pair)
  have h3: "hexCode pd ij message = Inr tok"
    using parse_block_classify [OF pb] assms(2) by (simp only: w2(3))
  have w3: "wss_clients s3 = wss_clients s" "effects s3 = effects s"
    using parse_block_unchanged [of parse cid message ?s2] pb w2 by simp_all
  have "message_body parse thr h cid message s = forward thr h tok s3"
    by (simp add: message_body_def l pb h3)
  then show ?thesis using w3 by blast
qed

lemma message_body_unprintable:
  "\<not> printable_role s cid \<Longrightarrow>
   message_body parse thr h cid message s =
     (Inl (Error ''Cannot convert object to primitive value''), count_message cid s)"
  by (simp add: message_body_def log_received_unprintable count_message_printable)

lemma forward_ok:
  assumes "\<forall>h' \<in> set (open_others (Some h) s). thr h' (Token tok) = None"
    and "\<not> cannot_convert tok"
  shows "forward thr h tok s =
           (Inr JUndefined,
            s\<lparr>effects := effects s @ map (\<lambda>h'. Send h' (Token tok)) (open_others (Some h) s),
              console := console s @ [BroadcastDone tok (int (length (wss_clients s)) - 1)]\<rparr>)"
proof -
  have "broadcast thr (Token tok) (Some h) s =
           (Inr JUndefined,
            s\<lparr>effects := effects s @ map (\<lambda>h'. Send h' (Token tok)) (open_others (Some h) s)\<rparr>)"
    using assms(1) by (rule broadcast_ok)
  then show ?thesis using assms(2) by (simp add: forward_def to_text_def)
qed

lemma on_message_forwards:
  assumes "map_of (wss_clients s) h = Some ws"
    and "printable_role s (clientId ws)"
    and "classify parse (clients s (clientId ws) \<noteq> None) message = Inr tok"
    and "\<not> cannot_convert tok"
    and "\<forall>h' \<in> set (open_others (Some h) s). thr h' (Token tok) = None"
  shows "effects (snd (on_message parse thr h message s)) =
           effects s @ map (\<lambda>h'. Send h' (Token tok)) (open_others (Some h) s)"
    and "last (console (snd (on_message parse thr h message s))) =
           BroadcastDone tok (int (length (wss_clients s)) - 1)"
proof -
  obtain s' where mb: "message_body parse thr h (clientId ws) message s = forward thr h tok s'"
    and w: "wss_clients s' = wss_clients s" and e: "effects s' = effects s"
    using message_body_forward [OF assms(2) assms(3), of thr h] by blast
  have oo: "open_others (Some h) s' = open_others (Some h) s"
    by (simp add: open_others_def w)
  have "\<forall>h' \<in> set (open_others (Some h) s'). thr h' (Token tok) = None"
    using assms(5) oo by simp
  then have f: "forward thr h tok s' =
           (Inr JUndefined,
            s'\<lparr>effects := effects s' @ map (\<lambda>h'. Send h' (Token tok)) (open_others (Some h) s'),
               console := console s' @ [BroadcastDone tok (int (length (wss_clients s')) - 1)]\<rparr>)"
    using assms(4) by (rule forward_ok)
  have om: "on_message parse thr h message s =
          (Inr JUndefined,
           s'\<lparr>effects := effects s' @ map (\<lambda>h'. Send h' (Token tok)) (open_others (Some h) s'),
              console := console s' @ [BroadcastDone tok (int (length (wss_clients s')) - 1)]\<rparr>)"
    by (simp add: on_message_def assms(1) mb f)
  show "effects (snd (on_message parse thr h message s)) =
           effects s @ map (\<lambda>h'. Send h' (Token tok)) (open_others (Some h) s)"
    by (simp add: om oo e)
  show "last (console (snd (on_message parse thr h message s))) =
           BroadcastDone tok (int (length (wss_clients s)) - 1)"
    by (simp add: om w)
qed

text \<open>
  Claim C4 as stated fails where the \<open>color\<close> field is present with a value that
  JavaScript counts as false: for a payload whose \<open>color\<close> is the empty string and whose
  \<open>message\<close> is \<open>#00FF00\<close>, the token is \<open>#00FF00\<close>, not the value of the \<open>color\<close> field.
\<close>

theorem token_is_color_field_counterexample:
  \<open>example_parse ''{"color":"","message":"#00FF00"}'' =
     Some (JObj [(''color'', JStr []), (''message'', JStr ''#00FF00'')]) \<and>
   field (JObj [(''color'', JStr []), (''message'', JStr ''#00FF00'')]) ''color'' = JStr [] \<and>
   classify example_parse True ''{"color":"","message":"#00FF00"}'' = Inr (JStr ''#00FF00'') \<and>
   classify example_parse True ''{"color":"","message":"#00FF00"}'' \<noteq>
     Inr (field (JObj [(''color'', JStr []), (''message'', JStr ''#00FF00'')]) ''color'')\<close>
  by (simp add: example_parse_def classify_def hexCode_def field_def)

text \<open>
  Claim C4, amended. Unless the sender is registered and the payload declares a
  \<open>clientType\<close> that cannot be printed, the token of a payload that parses is the value of
  its \<open>color\<close> field when that value is truthy, else the value of its \<open>message\<close> field when
  that is truthy, else the payload's text, and the token of a payload that does not
  parse is its text. When the sender's stored role and the token can be printed and no
  send throws, this token, bare, is what each open connection other than the sender is
  sent, and nothing else is sent.
\<close>

theorem token_fallback_chain:
  "(\<not> (registered \<and> unprintable_declaration parse message) \<longrightarrow>
      classify parse registered message =
        Inr (case parse message of
               None \<Rightarrow> JStr message
             | Some v \<Rightarrow>
                 if truthy (field v ''color'') then field v ''color''
                 else if truthy (field v ''message'') then field v ''message''
                 else JStr message)) \<and>
   (map_of (wss_clients s) h = Some ws \<and> printable_role s (clientId ws) \<and>
    classify parse (clients s (clientId ws) \<noteq> None) message = Inr tok \<and>
    \<not> cannot_convert tok \<and>
    (\<forall>h' \<in> set (open_others (Some h) s). thr h' (Token tok) = None) \<longrightarrow>
      effects (snd (on_message parse thr h message s)) =
        effects s @ map (\<lambda>h'. Send h' (Token tok)) (open_others (Some h) s))"
proof -
  have a: "\<not> (registered \<and> unprintable_declaration parse message) \<longrightarrow>
      classify parse registered message =
        Inr (case parse message of
               None \<Rightarrow> JStr message
             | Some v \<Rightarrow>
                 if truthy (field v ''color'') then field v ''color''
                 else if truthy (field v ''message'') then field v ''message''
                 else JStr message)"
    by (auto simp: classify_value split: option.splits)
  have b: "map_of (wss_clients s) h = Some ws \<and> printable_role s (clientId ws) \<and>
    classify parse (clients s (clientId ws) \<noteq> None) message = Inr tok \<and>
    \<not> cannot_convert tok \<and>
    (\<forall>h' \<in> set (open_others (Some h) s). thr h' (Token tok) = None) \<longrightarrow>
      effects (snd (on_message parse thr h message s)) =
        effects s @ map (\<lambda>h'. Send h' (Token tok)) (open_others (Some h) s)"
    using on_message_forwards(1) [of s h ws parse message tok thr] by blast
  from a b show ?thesis by blast
qed

lemma three_clients_facts:
  "map_of (wss_clients three_clients) 1 =
     Some \<lparr>readyState = OPEN, isAlive = True, clientId = ''client_1''\<rparr>"
  "printable_role three_clients ''client_1''"
  "clients three_clients ''client_1'' \<noteq> None"
  "open_others (Some 1) three_clients = [2, 3]"
  "effects three_clients = []"
  "int (length (wss_clients three_clients)) - 1 = 2"
  by (simp_all add: three_clients_def printable_role_def new_client_def open_others_def
      initial_server_def)

theorem token_fallback_chain_witness:
  \<open>classify example_parse True ''red'' = Inr (JStr ''red'') \<and>
   classify example_parse True ''{"message":"#00FF00"}'' = Inr (JStr ''#00FF00'') \<and>
   classify example_parse True ''{"color":"#FF0000","clientType":"unity"}'' =
     Inr (JStr ''#FF0000'') \<and>
   classify example_parse True ''null'' = Inr (JStr ''null'') \<and>
   map_of (wss_clients three_clients) 1 =
     Some \<lparr>readyState = OPEN, isAlive = True, clientId = ''client_1''\<rparr> \<and>
   printable_role three_clients ''client_1'' \<and>
   open_others (Some 1) three_clients = [2, 3] \<and>
   never_throws 2 (Token (JStr ''#00FF00'')) = None \<and>
   never_throws 3 (Token (JStr ''#00FF00'')) = None \<and>
   effects (snd (on_message example_parse never_throws 1 ''{"message":"#00FF00"}'' three_clients)) =
     [Send 2 (Token (JStr ''#00FF00'')), Send 3 (Token (JStr ''#00FF00''))]\<close>
proof -
  note f = three_clients_facts
  have t: "\<forall>h' \<in> set (open_others (Some 1) three_clients).
      never_throws h' (Token (JStr ''#00FF00'')) = None"
    by (simp add: never_throws_def)
  have n: "never_throws 2 (Token (JStr ''#00FF00'')) = None"
    "never_throws 3 (Token (JStr ''#00FF00'')) = None"
    by (simp_all add: never_throws_def)
  have p: \<open>example_parse ''red'' = None\<close>
    \<open>example_parse ''{"message":"#00FF00"}'' = Some (JObj [(''message'', JStr ''#00FF00'')])\<close>
    \<open>example_parse ''{"color":"#FF0000","clientType":"unity"}'' =
       Some (JObj [(''color'', JStr ''#FF0000''), (''clientType'', JStr ''unity'')])\<close>
    \<open>example_parse ''null'' = Some JNull\<close>
    by (simp_all add: example_parse_def)
  have u: \<open>\<not> unprintable_declaration example_parse ''red''\<close>
    \<open>\<not> unprintable_declaration example_parse ''{"message":"#00FF00"}''\<close>
    \<open>\<not> unprintable_declaration example_parse ''{"color":"#FF0000","clientType":"unity"}''\<close>
    \<open>\<not> unprintable_declaration example_parse ''null''\<close>
    by (simp_all add: unprintable_declaration_def declared_role_def p)
  have c1: \<open>classify example_parse True ''red'' = Inr (JStr ''red'')\<close>
    using token_fallback_chain [of True example_parse "''red''"] p(1) u(1) by simp
  have c2: \<open>classify example_parse True ''{"message":"#00FF00"}'' = Inr (JStr ''#00FF00'')\<close>
    using token_fallback_chain [of True example_parse \<open>''{"message":"#00FF00"}''\<close>] p(2) u(2)
    by (simp add: field_def)
  have c3: \<open>classify example_parse True ''{"color":"#FF0000","clientType":"unity"}'' =
              Inr (JStr ''#FF0000'')\<close>
    using token_fallback_chain
      [of True example_parse \<open>''{"color":"#FF0000","clientType":"unity"}''\<close>] p(3) u(3)
    by (simp add: field_def)
  have c4: \<open>classify example_parse True ''null'' = Inr (JStr ''null'')\<close>
    using token_fallback_chain [of True example_parse "''null''"] p(4) u(4) by simp
  have c2': \<open>classify example_parse (clients three_clients ''client_1'' \<noteq> None)
               ''{"message":"#00FF00"}'' = Inr (JStr ''#00FF00'')\<close>
    using c2 f(3) by simp
  have g: \<open>effects (snd (on_message example_parse never_throws 1 ''{"message":"#00FF00"}''
              three_clients)) =
     [Send 2 (Token (JStr ''#00FF00'')), Send 3 (Token (JStr ''#00FF00''))]\<close>
    using token_fallback_chain
      [where parse = example_parse and message = \<open>''{"message":"#00FF00"}''\<close>
         and s = three_clients and h = 1
         and ws = "\<lparr>readyState = OPEN, isAlive = True, clientId = ''client_1''\<rparr>"
         and tok = "JStr ''#00FF00''" and thr = never_throws]
      f(1) f(2) c2' t f(4) f(5) by simp
  from c1 c2 c3 c4 f(1) f(2) f(4) n g show ?thesis by blast
qed

text \<open>
  Claim C9 as stated fails. A sender whose only peer is closing sends \<open>red\<close>: \<open>broadcast\<close>
  delivers nothing and returns \<open>undefined\<close>, not the number 0, and the handler logs the
  token with the number 1.
\<close>

theorem broadcast_count_counterexample:
  "fst (broadcast never_throws (Token (JStr ''red'')) (Some 1) sender_and_closing) = Inr JUndefined \<and>
   effects_since sender_and_closing
     (snd (broadcast never_throws (Token (JStr ''red'')) (Some 1) sender_and_closing)) = [] \<and>
   fst (broadcast never_throws (Token (JStr ''red'')) (Some 1) sender_and_closing) \<noteq> Inr (JNum 0) \<and>
   effects_since sender_and_closing
     (snd (on_message example_parse never_throws 1 ''red'' sender_and_closing)) = [] \<and>
   last (console (snd (on_message example_parse never_throws 1 ''red'' sender_and_closing))) =
     BroadcastDone (JStr ''red'') 1"
  by (simp add: on_message_def message_body_def parse_block_def hexCode_def forward_def
      broadcast_def count_message_def log_received_def getClientInfo_def to_text_def js_incr_def
      example_parse_def never_throws_def sender_and_closing_def new_client_def initial_server_def
      effects_since_def)

text \<open>
  Claim C9, amended. A call of \<open>broadcast\<close> that returns has the value \<open>undefined\<close>,
  whatever it delivered. When the sender's stored role and the token can be printed and
  the broadcast of a message returns, the number the handler logs with the token is the
  size of \<open>wss.clients\<close> less one.
\<close>

theorem broadcast_returns_undefined:
  "((\<exists>e. fst (broadcast thr m sender s) = Inl e) \<or> fst (broadcast thr m sender s) = Inr JUndefined) \<and>
   (map_of (wss_clients s) h = Some ws \<and> printable_role s (clientId ws) \<and>
    classify parse (clients s (clientId ws) \<noteq> None) message = Inr tok \<and>
    \<not> cannot_convert tok \<and>
    (\<forall>h' \<in> set (open_others (Some h) s). thr h' (Token tok) = None) \<longrightarrow>
      last (console (snd (on_message parse thr h message s))) =
        BroadcastDone tok (int (length (wss_clients s)) - 1))"
proof -
  have "(\<exists>e. fst (broadcast thr m sender s) = Inl e) \<or> fst (broadcast thr m sender s) = Inr JUndefined"
    by (auto simp: broadcast_def split: prod.splits option.splits)
  then show ?thesis
    using on_message_forwards(2) [of s h ws parse message tok thr] by blast
qed

theorem broadcast_returns_undefined_witness:
  "fst (broadcast never_throws (Token (JStr ''red'')) (Some 1) three_clients) = Inr JUndefined \<and>
   map_of (wss_clients three_clients) 1 =
     Some \<lparr>readyState = OPEN, isAlive = True, clientId = ''client_1''\<rparr> \<and>
   printable_role three_clients ''client_1'' \<and>
   classify example_parse True ''red'' = Inr (JStr ''red'') \<and>
   open_others (Some 1) three_clients = [2, 3] \<and>
   never_throws 2 (Token (JStr ''red'')) = None \<and>
   never_throws 3 (Token (JStr ''red'')) = None \<and>
   last (console (snd (on_message example_parse never_throws 1 ''red'' three_clients))) =
     BroadcastDone (JStr ''red'') 2"
proof -
  note f = three_clients_facts
  have t: "\<forall>h' \<in> set (open_others (Some 1) three_clients).
      never_throws h' (Token (JStr ''red'')) = None"
    by (simp add: never_throws_def)
  have n: "never_throws 2 (Token (JStr ''red'')) = None"
    "never_throws 3 (Token (JStr ''red'')) = None"
    by (simp_all add: never_throws_def)
  have c: "classify example_parse True ''red'' = Inr (JStr ''red'')"
    by (simp add: classify_def example_parse_def hexCode_def)
  have c': "classify example_parse (clients three_clients ''client_1'' \<noteq> None) ''red'' =
              Inr (JStr ''red'')"
    using c f(3) by simp
  have b: "\<forall>e. fst (broadcast never_throws (Token (JStr ''red'')) (Some 1) three_clients) \<noteq> Inl e"
    by (simp add: broadcast_def never_throws_def three_clients_def)
  have r: "fst (broadcast never_throws (Token (JStr ''red'')) (Some 1) three_clients) = Inr JUndefined \<and>
     last (console (snd (on_message example_parse never_throws 1 ''red'' three_clients))) =
       BroadcastDone (JStr ''red'') 2"
    using broadcast_returns_undefined
      [where thr = never_throws and m = "Token (JStr ''red'')" and sender = "Some 1"
         and s = three_clients and h = 1
         and ws = "\<lparr>readyState = OPEN, isAlive = True, clientId = ''client_1''\<rparr>"
         and parse = example_parse and message = "''red''" and tok = "JStr ''red''"]
      f(1) f(2) c' t f(6) b by simp
  from r f(1) f(2) c f(4) n show ?thesis by blast
qed

section \<open>Properties of the role\<close>

lemma parse_block_roles:
  "clients s cid = Some c \<Longrightarrow>
   role_of (snd (parse_block parse cid message s)) cid' =
     (if cid' = cid
      then Some (case declared_role parse message of None \<Rightarrow> c_type c | Some t \<Rightarrow> t)
      else role_of s cid')"
  by (auto simp: parse_block_def declared_role_def role_of_def to_text_def
      split: option.splits sum.splits)

lemma forward_clients: "clients (snd (forward thr h tok s)) = clients s"
  by (auto simp: forward_def broadcast_def to_text_def split: prod.splits sum.splits option.splits)

lemma sendToClient_clients: "clients (snd (sendToClient thr h m s)) = clients s"
  by (auto simp: sendToClient_def split: option.splits)

lemma message_body_roles:
  assumes "clients s cid = Some c" and "\<not> cannot_convert (c_type c)"
  shows "role_of (snd (message_body parse thr h cid message s)) cid' =
     (if cid' = cid
      then Some (case declared_role parse message of None \<Rightarrow> c_type c | Some t \<Rightarrow> t)
      else role_of s cid')"
proof -
  let ?s1 = "count_message cid s"
  have "printable_role s cid"
    using assms by (simp add: printable_role_def)
  then have pr: "printable_role ?s1 cid"
    by (simp add: count_message_printable)
  then obtain l where l: "log_received cid message ?s1 = Inr (?s1\<lparr>console := console ?s1 @ [l]\<rparr>)"
    using log_received_printable by blast
  let ?s2 = "?s1\<lparr>console := console ?s1 @ [l]\<rparr>"
  obtain c2 where c2: "clients ?s2 cid = Some c2" "c_type c2 = c_type c"
    using assms(1) by (auto simp: count_message_def)
  have r2: "role_of ?s2 cid' = role_of s cid'"
    using count_message_role [of cid s cid'] by (simp add: role_of_def)
  obtain pd ij s3 where pb: "parse_block parse cid message ?s2 = ((pd, ij), s3)"
    by (metis surj_pair)
  have r3: "role_of s3 cid' =
     (if cid' = cid
      then Some (case declared_role parse message of None \<Rightarrow> c_type c | Some t \<Rightarrow> t)
      else role_of s cid')"
    using parse_block_roles [OF c2(1), of parse message cid'] pb c2(2) r2
    by (simp split: option.splits)
  have "clients (snd (message_body parse thr h cid message s)) = clients s3"
    by (simp add: message_body_def l pb forward_clients split: sum.splits)
  then show ?thesis using r3 by (simp add: role_of_def)
qed

lemma on_message_roles:
  assumes "map_of (wss_clients s) h = Some ws" and "clients s (clientId ws) = Some c"
    and "\<not> cannot_convert (c_type c)"
  shows "role_of (snd (on_message parse thr h message s)) cid =
     (if cid = clientId ws
      then Some (case declared_role parse message of None \<Rightarrow> c_type c | Some t \<Rightarrow> t)
      else role_of s cid)"
proof -
  obtain r s' where mb: "message_body parse thr h (clientId ws) message s = (r, s')"
    by (metis surj_pair)
  have r': "role_of s' cid =
     (if cid = clientId ws
      then Some (case declared_role parse message of None \<Rightarrow> c_type c | Some t \<Rightarrow> t)
      else role_of s cid)"
    using message_body_roles [OF assms(2) assms(3), of parse thr h message cid] mb by simp
  have "clients (snd (on_message parse thr h message s)) = clients s'"
    by (simp add: on_message_def assms(1) mb sendToClient_clients split: sum.splits)
  then show ?thesis using r' by (simp add: role_of_def)
qed

lemma on_connection_roles:
  "map_of (wss_clients s) h = None \<Longrightarrow>
   role_of (on_connection h ip now s) cid =
     (if cid = fst (generateClientId s) then Some (JStr ''unknown'') else role_of s cid)"
  by (simp add: on_connection_def generateClientId_def role_of_def)

lemma on_pong_roles: "role_of (on_pong h s) cid = role_of s cid"
  by (auto simp: on_pong_def Let_def role_of_def split: option.splits)

lemma heartbeat_roles: "role_of (heartbeat s) cid = role_of s cid"
  by (simp add: heartbeat_def role_of_def split: prod.splits)

lemma step_message:
  "exited s = None \<Longrightarrow> step parse thr (now, Message h d) s = snd (on_message parse thr h d s)"
  using on_message_returns [of parse thr h d s]
  by (cases "on_message parse thr h d s") (simp add: step_def top_level_def)

lemma run_append: "run parse thr (xs @ ys) s = run parse thr ys (run parse thr xs s)"
  by (induction xs arbitrary: s) auto

text \<open>
  Claim C5 as stated fails: the role is not fixed by the first message that declares a
  \<open>clientType\<close>. A connection that declares \<open>web\<close> and then \<open>unity\<close> has the role \<open>unity\<close>.
\<close>

theorem role_first_declaration_counterexample:
  \<open>declared_role example_parse ''{"color":"#00FF00","clientType":"web"}'' = Some (JStr ''web'') \<and>
   role_of (run example_parse never_throws
              [(0, Connection 1 ''10.0.0.1''),
               (1, Message 1 ''{"color":"#00FF00","clientType":"web"}''),
               (2, Message 1 ''{"color":"#FF0000","clientType":"unity"}'')]
              initial_server) ''client_1'' = Some (JStr ''unity'') \<and>
   role_of (run example_parse never_throws
              [(0, Connection 1 ''10.0.0.1''),
               (1, Message 1 ''{"color":"#00FF00","clientType":"web"}''),
               (2, Message 1 ''{"color":"#FF0000","clientType":"unity"}'')]
              initial_server) ''client_1'' \<noteq> Some (JStr ''web'')\<close>
  by (simp add: step_def top_level_def on_connection_def generateClientId_def on_message_def
      message_body_def parse_block_def hexCode_def forward_def broadcast_def count_message_def
      log_received_def getClientInfo_def to_text_def sendToClient_def js_incr_def
      string_of_nat.simps digit_char_def example_parse_def declared_role_def never_throws_def
      initial_server_def role_of_def)

text \<open>
  Claim C5, amended. The connection handler gives the new identity the role \<open>unknown\<close>
  and leaves every other role. A message of a connection whose stored role can be
  printed sets that connection's role to the \<open>clientType\<close> it declares, whatever the role
  was before, leaves it when it declares none, and leaves the role of every other
  identity. Pongs and heartbeats change no role. At the example payload the role becomes
  \<open>unity\<close> and the peers are sent the bare token \<open>#FF0000\<close>.
\<close>

theorem role_assignment:
  "(map_of (wss_clients s) h = None \<longrightarrow>
      (\<forall>cid. role_of (on_connection h ip now s) cid =
         (if cid = fst (generateClientId s) then Some (JStr ''unknown'') else role_of s cid))) \<and>
   (map_of (wss_clients s) h = Some ws \<and> clients s (clientId ws) = Some c \<and>
    \<not> cannot_convert (c_type c) \<longrightarrow>
      (\<forall>cid. role_of (snd (on_message parse thr h message s)) cid =
         (if cid = clientId ws
          then Some (case declared_role parse message of None \<Rightarrow> c_type c | Some t \<Rightarrow> t)
          else role_of s cid))) \<and>
   (\<forall>cid. role_of (on_pong h s) cid = role_of s cid \<and> role_of (heartbeat s) cid = role_of s cid)"
  using on_connection_roles [of s h ip now] on_message_roles [of s h ws c parse thr message]
    on_pong_roles [of h s] heartbeat_roles [of s]
  by blast

theorem role_assignment_witness:
  \<open>map_of (wss_clients three_clients) 4 = None \<and>
   fst (generateClientId three_clients) = ''client_4'' \<and>
   role_of (on_connection 4 ''10.0.0.1'' 0 three_clients) ''client_4'' = Some (JStr ''unknown'') \<and>
   map_of (wss_clients three_clients) 1 =
     Some \<lparr>readyState = OPEN, isAlive = True, clientId = ''client_1''\<rparr> \<and>
   clients three_clients ''client_1'' = Some (new_client 1 ''client_1'') \<and>
   cannot_convert (c_type (new_client 1 ''client_1'')) = False \<and>
   declared_role example_parse ''{"color":"#FF0000","clientType":"unity"}'' = Some (JStr ''unity'') \<and>
   role_of (snd (on_message example_parse never_throws 1
       ''{"color":"#FF0000","clientType":"unity"}'' three_clients)) ''client_1'' =
     Some (JStr ''unity'') \<and>
   role_of (snd (on_message example_parse never_throws 1
       ''{"color":"#FF0000","clientType":"unity"}'' three_clients)) ''client_2'' =
     Some (JStr ''unknown'') \<and>
   role_of (snd (on_message example_parse never_throws 1 ''red'' three_clients)) ''client_1'' =
     Some (JStr ''unknown'') \<and>
   effects (snd (on_message example_parse never_throws 1
       ''{"color":"#FF0000","clientType":"unity"}'' three_clients)) =
     [Send 2 (Token (JStr ''#FF0000'')), Send 3 (Token (JStr ''#FF0000''))]\<close>
proof -
  have a: "map_of (wss_clients three_clients) 4 = None"
    by (simp add: three_clients_def)
  have b: "fst (generateClientId three_clients) = ''client_4''"
    by (simp add: generateClientId_def three_clients_def string_of_nat.simps digit_char_def)
  have m: "map_of (wss_clients three_clients) 1 =
     Some \<lparr>readyState = OPEN, isAlive = True, clientId = ''client_1''\<rparr>"
    by (rule three_clients_facts(1))
  have c: "clients three_clients ''client_1'' = Some (new_client 1 ''client_1'')"
    by (simp add: three_clients_def)
  have p: "cannot_convert (c_type (new_client 1 ''client_1'')) = False"
    by (simp add: new_client_def)
  have d: \<open>declared_role example_parse ''{"color":"#FF0000","clientType":"unity"}'' =
            Some (JStr ''unity'')\<close>
    "declared_role example_parse ''red'' = None"
    by (simp_all add: declared_role_def example_parse_def)
  have r2: "role_of three_clients ''client_2'' = Some (JStr ''unknown'')"
    by (simp add: role_of_def three_clients_def new_client_def)
  have t: \<open>classify example_parse (clients three_clients ''client_1'' \<noteq> None)
             ''{"color":"#FF0000","clientType":"unity"}'' = Inr (JStr ''#FF0000'')\<close>
    by (simp add: classify_def example_parse_def hexCode_def)
  have n: "\<forall>h' \<in> set (open_others (Some 1) three_clients).
             never_throws h' (Token (JStr ''#FF0000'')) = None"
    by (simp add: never_throws_def)
  have e: \<open>effects (snd (on_message example_parse never_throws 1
       ''{"color":"#FF0000","clientType":"unity"}'' three_clients)) =
     [Send 2 (Token (JStr ''#FF0000'')), Send 3 (Token (JStr ''#FF0000''))]\<close>
    using on_message_forwards(1)
      [where s = three_clients and h = 1
         and ws = "\<lparr>readyState = OPEN, isAlive = True, clientId = ''client_1''\<rparr>"
         and parse = example_parse and tok = "JStr ''#FF0000''" and thr = never_throws
         and message = \<open>''{"color":"#FF0000","clientType":"unity"}''\<close>]
      m t n three_clients_facts(2,4,5) by simp
  have r0: "role_of (on_connection 4 ''10.0.0.1'' 0 three_clients) ''client_4'' =
              Some (JStr ''unknown'')"
    using role_assignment [of three_clients 4 "''10.0.0.1''" 0] a b by simp
  note ra = role_assignment
    [where s = three_clients and h = 1
       and ws = "\<lparr>readyState = OPEN, isAlive = True, clientId = ''client_1''\<rparr>"
       and c = "new_client 1 ''client_1''" and parse = example_parse and thr = never_throws]
  have r1: \<open>role_of (snd (on_message example_parse never_throws 1
       ''{"color":"#FF0000","clientType":"unity"}'' three_clients)) ''client_1'' =
     Some (JStr ''unity'')\<close>
    \<open>role_of (snd (on_message example_parse never_throws 1
       ''{"color":"#FF0000","clientType":"unity"}'' three_clients)) ''client_2'' =
     Some (JStr ''unknown'')\<close>
    using ra [where message = \<open>''{"color":"#FF0000","clientType":"unity"}''\<close>] m c p d(1) r2
    by simp_all
  have r3: "role_of (snd (on_message example_parse never_throws 1 ''red'' three_clients))
              ''client_1'' = Some (JStr ''unknown'')"
    using ra [where message = "''red''"] m c p d(2) by (simp add: new_client_def)
  from a b r0 m c p d(1) r1 r3 e show ?thesis by blast
qed

section \<open>Properties of the identities\<close>

lemma digit_char_inj: "a < 10 \<Longrightarrow> b < 10 \<Longrightarrow> digit_char a = digit_char b \<Longrightarrow> a = b"
proof -
  assume a: "a < 10" and b: "b < 10" and e: "digit_char a = digit_char b"
  have d: "distinct ''0123456789''" by simp
  have l: "length ''0123456789'' = 10" by simp
  from e have "''0123456789'' ! a = ''0123456789'' ! b" by (simp add: digit_char_def)
  with d a b l show "a = b" by (metis nth_eq_iff_index_eq)
qed

lemma string_of_nat_length: "0 < length (string_of_nat n)"
  by (subst string_of_nat.simps) simp

lemma string_of_nat_inj: "string_of_nat n = string_of_nat m \<Longrightarrow> n = m"
proof (induction n arbitrary: m rule: string_of_nat.induct)
  case (1 n)
  show ?case
  proof (cases "n < 10")
    case n: True
    show ?thesis
    proof (cases "m < 10")
      case True
      with n "1.prems" show ?thesis
        by (simp add: string_of_nat.simps [of n] string_of_nat.simps [of m] digit_char_inj)
    next
      case False
      with n "1.prems" have "[digit_char n] = string_of_nat (m div 10) @ [digit_char (m mod 10)]"
        by (simp add: string_of_nat.simps [of n] string_of_nat.simps [of m])
      then have "length (string_of_nat (m div 10)) = 0"
        by (metis append_is_Nil_conv butlast.simps(2) butlast_snoc list.size(3))
      with string_of_nat_length [of "m div 10"] show ?thesis by simp
    qed
  next
    case n: False
    show ?thesis
    proof (cases "m < 10")
      case True
      with n "1.prems" have "string_of_nat (n div 10) @ [digit_char (n mod 10)] = [digit_char m]"
        by (simp add: string_of_nat.simps [of n] string_of_nat.simps [of m])
      then have "length (string_of_nat (n div 10)) = 0"
        by (metis append_is_Nil_conv butlast.simps(2) butlast_snoc list.size(3))
      with string_of_nat_length [of "n div 10"] show ?thesis by simp
    next
      case False
      with n "1.prems" have e: "string_of_nat (n div 10) = string_of_nat (m div 10)"
        "digit_char (n mod 10) = digit_char (m mod 10)"
        by (simp_all add: string_of_nat.simps [of n] string_of_nat.simps [of m])
      from "1.IH" [OF n e(1)] have d: "n div 10 = m div 10" .
      have "n mod 10 = m mod 10" using e(2) by (simp add: digit_char_inj)
      with d show ?thesis by (metis div_mult_mod_eq)
    qed
  qed
qed

lemma same_identities_refl [simp]: "same_identities s s"
  by (simp add: same_identities_def)

lemma same_identities_trans:
  "same_identities s s' \<Longrightarrow> same_identities s' s'' \<Longrightarrow> same_identities s s''"
  by (simp add: same_identities_def)

lemma relays_same: "relays s s' \<Longrightarrow> same_identities s s'"
  by (simp add: same_identities_def relays_fields)

lemma on_message_same: "same_identities s (snd (on_message parse thr h message s))"
  by (rule relays_same) (rule on_message_relays)

lemma broadcast_same: "same_identities s (snd (broadcast thr m sender s))"
  by (rule relays_same) (rule broadcast_relays)

lemma on_close_same: "same_identities s (snd (on_close thr h code reason now s))"
proof (cases "map_of (wss_clients s) h")
  case None
  then show ?thesis by (simp add: on_close_def)
next
  case (Some ws)
  let ?s1 = "s\<lparr>wss_clients := filter (\<lambda>p. fst p \<noteq> h) (wss_clients s)\<rparr>"
  show ?thesis
  proof (cases "getClientInfo (clientId ws) ?s1")
    case (Inl e)
    then show ?thesis
      by (simp add: on_close_def Some Let_def same_identities_def)
  next
    case (Inr info)
    then show ?thesis
      by (simp add: on_close_def Some Let_def same_identities_def broadcastSystemMessage_def
          broadcast_def split: prod.splits)
  qed
qed

lemma on_error_same: "same_identities s (snd (on_error h e s))"
  by (auto simp: same_identities_def on_error_def split: option.splits sum.splits)

lemma on_pong_same: "same_identities s (on_pong h s)"
  by (auto simp: same_identities_def on_pong_def Let_def split: option.splits)

lemma heartbeat_loop_logs: "assigned_identities (snd (snd (heartbeat_loop cs))) = []"
  by (induction cs) (auto split: prod.splits)

lemma heartbeat_same: "same_identities s (heartbeat s)"
  using heartbeat_loop_logs [of "wss_clients s"]
  by (auto simp: same_identities_def heartbeat_def split: prod.splits)

lemma shutdown_same: "same_identities s (snd (shutdown thr now s))"
  by (auto simp: same_identities_def shutdown_def Let_def split: prod.splits option.splits)

lemma process_exit_same: "same_identities s (process_exit n s)"
  by (simp add: same_identities_def process_exit_def)

lemma uncaughtException_same: "same_identities s (uncaughtException thr e now s)"
proof -
  let ?s1 = "s\<lparr>console := console s @ [UncaughtExceptionLine e]\<rparr>"
  have a: "same_identities s ?s1" by (simp add: same_identities_def)
  obtain r s' where sh: "shutdown thr now ?s1 = (r, s')" by (metis surj_pair)
  have b: "same_identities s s'"
    using same_identities_trans [OF a shutdown_same [of ?s1 thr now]] sh by simp
  show ?thesis
    using b same_identities_trans [OF b process_exit_same [of s' 7]]
    by (cases r) (simp_all add: uncaughtException_def sh)
qed

lemma top_level_same:
  "same_identities s (snd r) \<Longrightarrow> same_identities s (top_level thr now r)"
  using same_identities_trans [OF _ uncaughtException_same]
  by (cases r) (auto simp: top_level_def split: sum.splits)

lemma callbacks_same:
  "same_identities s (wss_closed s)" "same_identities s (http_closed s)"
  "same_identities s (grace_timeout s)"
  by (simp_all add: same_identities_def wss_closed_def http_closed_def grace_timeout_def
      process_exit_def)

lemma step_same: "\<not> is_connection te \<Longrightarrow> same_identities s (step parse thr te s)"
proof (cases te)
  case (Pair now ev)
  assume "\<not> is_connection te"
  with Pair show ?thesis
    by (cases ev)
      (simp_all add: step_def top_level_same on_message_same on_close_same on_error_same
        on_pong_same heartbeat_same shutdown_same uncaughtException_same callbacks_same)
qed


lemma on_connection_ids:
  assumes "map_of (wss_clients s) h = None"
  shows "clientIdCounter (on_connection h ip now s) = js_incr (clientIdCounter s)"
    and "assigned_identities (console (on_connection h ip now s)) =
           assigned_identities (console s) @ [''client_'' @ string_of_nat (clientIdCounter s)]"
  using assms by (simp_all add: on_connection_def generateClientId_def)

lemma on_connection_known: "map_of (wss_clients s) h \<noteq> None \<Longrightarrow> on_connection h ip now s = s"
  by (simp add: on_connection_def)

lemma step_exited: "exited s \<noteq> None \<Longrightarrow> step parse thr te s = s"
  by (simp add: step_def)

lemma step_connection:
  "exited s = None \<Longrightarrow> step parse thr (now, Connection h ip) s = on_connection h ip now s"
  by (simp add: step_def)

lemma run_no_connection:
  "\<forall>te \<in> set tes. \<not> is_connection te \<Longrightarrow> same_identities s (run parse thr tes s)"
proof (induction tes arbitrary: s)
  case Nil
  then show ?case by simp
next
  case (Cons te tes)
  have a: "same_identities s (step parse thr te s)"
    using Cons.prems by (simp add: step_same)
  have b: "same_identities (step parse thr te s) (run parse thr tes (step parse thr te s))"
    using Cons.IH Cons.prems by simp
  from same_identities_trans [OF a b] show ?case by simp
qed

lemma client_name_inj:
  "''client_'' @ string_of_nat a = ''client_'' @ string_of_nat b \<Longrightarrow> a = b"
  by (simp add: string_of_nat_inj)

lemma run_distinct:
  assumes "distinct (assigned_identities (console s))"
    and "\<forall>i \<in> set (assigned_identities (console s)).
           \<exists>k < clientIdCounter s. i = ''client_'' @ string_of_nat k"
    and "clientIdCounter s + length (filter is_connection tes) \<le> 2 ^ 53 + 1"
  shows "distinct (assigned_identities (console (run parse thr tes s)))"
  using assms
proof (induction tes arbitrary: s)
  case Nil
  then show ?case by simp
next
  case (Cons te tes)
  let ?s' = "step parse thr te s"
  show ?case
  proof (cases "is_connection te")
    case False
    then have sm: "same_identities s ?s'" by (simp add: step_same)
    have "distinct (assigned_identities (console (run parse thr tes ?s')))"
    proof (rule Cons.IH)
      show "distinct (assigned_identities (console ?s'))"
        using sm Cons.prems(1) by (simp add: same_identities_def)
      show "\<forall>i \<in> set (assigned_identities (console ?s')).
           \<exists>k < clientIdCounter ?s'. i = ''client_'' @ string_of_nat k"
        using sm Cons.prems(2) by (simp add: same_identities_def)
      show "clientIdCounter ?s' + length (filter is_connection tes) \<le> 2 ^ 53 + 1"
        using sm Cons.prems(3) False by (simp add: same_identities_def)
    qed
    then show ?thesis by simp
  next
    case True
    then obtain now h ip where te: "te = (now, Connection h ip)"
      by (cases te rule: is_connection.cases) auto
    have bound: "clientIdCounter s + 1 + length (filter is_connection tes) \<le> 2 ^ 53 + 1"
      using Cons.prems(3) True by simp
    show ?thesis
    proof (cases "exited s = None \<and> map_of (wss_clients s) h = None")
      case False
      then have "?s' = s"
        using te by (cases "exited s = None") (simp_all add: step_exited step_connection on_connection_known)
      moreover have "distinct (assigned_identities (console (run parse thr tes s)))"
        using Cons.IH [OF Cons.prems(1) Cons.prems(2)] bound by simp
      ultimately show ?thesis by simp
    next
      case fresh: True
      then have s': "?s' = on_connection h ip now s"
        using te by (simp add: step_connection)
      have c': "clientIdCounter ?s' = js_incr (clientIdCounter s)"
        and i': "assigned_identities (console ?s') =
           assigned_identities (console s) @ [''client_'' @ string_of_nat (clientIdCounter s)]"
        using on_connection_ids [of s h ip now] fresh s' by simp_all
      have new: "''client_'' @ string_of_nat (clientIdCounter s) \<notin>
                   set (assigned_identities (console s))"
      proof
        assume "''client_'' @ string_of_nat (clientIdCounter s) \<in>
                  set (assigned_identities (console s))"
        with Cons.prems(2) obtain k where "k < clientIdCounter s"
          "''client_'' @ string_of_nat (clientIdCounter s) = ''client_'' @ string_of_nat k"
          by blast
        then show False using client_name_inj by blast
      qed
      have d': "distinct (assigned_identities (console ?s'))"
        using Cons.prems(1) new i' by simp
      show ?thesis
      proof (cases "clientIdCounter s < 2 ^ 53")
        case True
        then have c'': "clientIdCounter ?s' = clientIdCounter s + 1"
          using c' by (simp add: js_incr_def)
        have "distinct (assigned_identities (console (run parse thr tes ?s')))"
        proof (rule Cons.IH [OF d'])
          show "\<forall>i \<in> set (assigned_identities (console ?s')).
           \<exists>k < clientIdCounter ?s'. i = ''client_'' @ string_of_nat k"
            using Cons.prems(2) i' c'' by (auto intro: less_SucI)
          show "clientIdCounter ?s' + length (filter is_connection tes) \<le> 2 ^ 53 + 1"
            using bound c'' by simp
        qed
        then show ?thesis by simp
      next
        case False
        then have "length (filter is_connection tes) = 0"
          using bound by linarith
        then have "\<forall>te \<in> set tes. \<not> is_connection te"
          by (simp add: filter_empty_conv)
        then have "same_identities ?s' (run parse thr tes ?s')"
          by (rule run_no_connection)
        then show ?thesis using d' by (simp add: same_identities_def)
      qed
    qed
  qed
qed

text \<open>
  Claim C6, amended. From the start of the process, over any sequence of events that
  holds at most \<open>2 ^ 53\<close> connection events (closes, heartbeats and shutdowns between them
  as they come), the identities handed out are pairwise different.
\<close>

theorem identity_uniqueness:
  assumes "length (filter is_connection tes) \<le> 2 ^ 53"
  shows "distinct (assigned_identities (console (run parse thr tes initial_server)))"
proof (rule run_distinct)
  show "distinct (assigned_identities (console initial_server))"
    by (simp add: initial_server_def)
  show "\<forall>i \<in> set (assigned_identities (console initial_server)).
           \<exists>k < clientIdCounter initial_server. i = ''client_'' @ string_of_nat k"
    by (simp add: initial_server_def)
  show "clientIdCounter initial_server + length (filter is_connection tes) \<le> 2 ^ 53 + 1"
    using assms by (simp add: initial_server_def)
qed

lemma reconnect_identities:
  "assigned_identities (console (run example_parse never_throws
      [(0, Connection 1 ''10.0.0.1''), (5, CloseEvent 1 1000 (TextReason ''bye'')),
       (9, Connection 1 ''10.0.0.1'')] initial_server)) = [''client_1'', ''client_2'']"
  by (simp add: step_def on_connection_def generateClientId_def on_close_def top_level_def
      broadcastSystemMessage_def broadcast_def getClientInfo_def to_text_def js_incr_def
      string_of_nat.simps digit_char_def initial_server_def Let_def)

theorem identity_uniqueness_witness:
  "length (filter is_connection
      [(0, Connection 1 ''10.0.0.1''), (5, CloseEvent 1 1000 (TextReason ''bye'')),
       (9, Connection 1 ''10.0.0.1'')]) \<le> 2 ^ 53 \<and>
   distinct (assigned_identities (console (run example_parse never_throws
      [(0, Connection 1 ''10.0.0.1''), (5, CloseEvent 1 1000 (TextReason ''bye'')),
       (9, Connection 1 ''10.0.0.1'')] initial_server))) \<and>
   assigned_identities (console (run example_parse never_throws
      [(0, Connection 1 ''10.0.0.1''), (5, CloseEvent 1 1000 (TextReason ''bye'')),
       (9, Connection 1 ''10.0.0.1'')] initial_server)) = [''client_1'', ''client_2'']"
proof -
  have h: "length (filter is_connection
      [(0, Connection 1 ''10.0.0.1''), (5, CloseEvent 1 1000 (TextReason ''bye'')),
       (9, Connection 1 ''10.0.0.1'')]) \<le> 2 ^ 53"
    by simp
  from identity_uniqueness [OF h, of example_parse never_throws] h reconnect_identities
  show ?thesis by blast
qed

lemma connections_run:
  "exited (run parse thr (connections n) initial_server) = None \<and>
   clientIdCounter (run parse thr (connections n) initial_server) = min (n + 1) (2 ^ 53) \<and>
   map fst (wss_clients (run parse thr (connections n) initial_server)) = [0..<n] \<and>
   assigned_identities (console (run parse thr (connections n) initial_server)) =
     map (\<lambda>i. ''client_'' @ string_of_nat (min (i + 1) (2 ^ 53))) [0..<n]"
proof (induction n)
  case 0
  then show ?case by (simp add: initial_server_def)
next
  case (Suc n)
  let ?s = "run parse thr (connections n) initial_server"
  from Suc have m: "map fst (wss_clients ?s) = [0..<n]" by blast
  have "n \<notin> set [0..<n]" by simp
  then have "n \<notin> set (map fst (wss_clients ?s))" unfolding m .
  then have fresh: "map_of (wss_clients ?s) n = None"
    by (simp add: map_of_eq_None_iff)
  have ex: "exited ?s = None" using Suc by simp
  have r: "run parse thr (connections (Suc n)) initial_server = on_connection n ''10.0.0.1'' 0 ?s"
    by (simp add: run_append step_connection [OF ex])
  have a: "exited (on_connection n ''10.0.0.1'' 0 ?s) = None"
    using fresh ex by (simp add: on_connection_def generateClientId_def)
  have b: "clientIdCounter (on_connection n ''10.0.0.1'' 0 ?s) = min (Suc n + 1) (2 ^ 53)"
    using on_connection_ids(1) [OF fresh] Suc by (simp add: js_incr_def min_def)
  have c: "map fst (wss_clients (on_connection n ''10.0.0.1'' 0 ?s)) = [0..<Suc n]"
    using fresh Suc by (simp add: on_connection_def generateClientId_def)
  have d: "assigned_identities (console (on_connection n ''10.0.0.1'' 0 ?s)) =
     map (\<lambda>i. ''client_'' @ string_of_nat (min (i + 1) (2 ^ 53))) [0..<Suc n]"
    using on_connection_ids(2) [OF fresh] Suc by simp
  from a b c d show ?case by (simp only: r) 
qed

text \<open>
  Claim C6 as stated fails at \<open>2 ^ 53 + 1\<close> connections. The counter is a JavaScript
  number: at \<open>2 ^ 53\<close> the increment leaves it where it is, and the next connection gets
  the identity of the one before.
\<close>

theorem identity_reuse_counterexample:
  "\<not> distinct (assigned_identities (console
       (run example_parse never_throws (connections (2 ^ 53 + 1)) initial_server)))"
proof -
  let ?ids = "assigned_identities (console
       (run example_parse never_throws (connections (2 ^ 53 + 1)) initial_server))"
  let ?f = "\<lambda>i::nat. ''client_'' @ string_of_nat (min (i + 1) (2 ^ 53))"
  have e: "?ids = map ?f [0..<2 ^ 53 + 1]"
    using connections_run [of example_parse never_throws "2 ^ 53 + 1"] by blast
  have l: "length ?ids = 2 ^ 53 + 1" by (simp only: e) simp
  have i1: "?ids ! (2 ^ 53 - 1) = ?f (2 ^ 53 - 1)"
    by (simp only: e) (simp del: upt_Suc)
  have i2: "?ids ! (2 ^ 53) = ?f (2 ^ 53)"
    by (simp only: e) (simp del: upt_Suc)
  have "?f (2 ^ 53 - 1) = ?f (2 ^ 53)" by simp
  then have "?ids ! (2 ^ 53 - 1) = ?ids ! (2 ^ 53)" using i1 i2 by simp
  moreover have "(2::nat) ^ 53 - 1 < length ?ids" "(2::nat) ^ 53 < length ?ids"
    "(2::nat) ^ 53 - 1 \<noteq> 2 ^ 53" using l by simp_all
  ultimately show ?thesis by (metis nth_eq_iff_index_eq)
qed

section \<open>Properties of the heartbeat\<close>

lemma heartbeat_loop_conns:
  "fst (heartbeat_loop cs) =
     map (\<lambda>p. (fst p, if isAlive (snd p) then (snd p)\<lparr>isAlive := False\<rparr> else terminate (snd p))) cs"
  by (induction cs) (auto split: prod.splits)

lemma heartbeat_loop_effects:
  "fst (snd (heartbeat_loop cs)) = map probe_or_terminate cs"
  by (induction cs) (auto simp: probe_or_terminate_def split: prod.splits)

lemma heartbeat_conns:
  "wss_clients (heartbeat s) =
     map (\<lambda>p. (fst p, if isAlive (snd p) then (snd p)\<lparr>isAlive := False\<rparr> else terminate (snd p)))
       (wss_clients s)"
  using heartbeat_loop_conns [of "wss_clients s"]
  by (cases "heartbeat_loop (wss_clients s)") (simp add: heartbeat_def)

lemma heartbeat_effects:
  "effects (heartbeat s) = effects s @ map probe_or_terminate (wss_clients s)"
  using heartbeat_loop_effects [of "wss_clients s"]
  by (cases "heartbeat_loop (wss_clients s)") (simp add: heartbeat_def)

lemma heartbeat_since:
  "effects_since s (heartbeat s) = map probe_or_terminate (wss_clients s)"
  by (simp add: effects_sinceI heartbeat_effects)

lemma map_of_map_value:
  "map_of (map (\<lambda>p. (fst p, f (snd p))) cs) h = map_option f (map_of cs h)"
  by (induction cs) auto

lemma heartbeat_keys: "map fst (wss_clients (heartbeat s)) = map fst (wss_clients s)"
  by (simp add: heartbeat_conns comp_def)

lemma heartbeat_lookup:
  "map_of (wss_clients s) h = Some ws \<Longrightarrow>
   map_of (wss_clients (heartbeat s)) h =
     Some (if isAlive ws then ws\<lparr>isAlive := False\<rparr> else terminate ws)"
  by (simp add: heartbeat_conns
      map_of_map_value [where f = "\<lambda>w. if isAlive w then w\<lparr>isAlive := False\<rparr> else terminate w"])

lemma terminate_in_cycle:
  "distinct (map fst cs) \<Longrightarrow> map_of cs h = Some ws \<Longrightarrow>
   Terminate h \<in> set (map probe_or_terminate cs) \<longleftrightarrow> \<not> isAlive ws"
  by (force simp: probe_or_terminate_def image_iff split: if_splits dest: eq_key_imp_eq_value)

lemma ping_in_cycle:
  "distinct (map fst cs) \<Longrightarrow> map_of cs h = Some ws \<Longrightarrow>
   Ping h \<in> set (map probe_or_terminate cs) \<longleftrightarrow> isAlive ws"
  by (force simp: probe_or_terminate_def image_iff split: if_splits dest: eq_key_imp_eq_value)

lemma terminate_isAlive [simp]: "isAlive (terminate ws) = isAlive ws"
  "clientId (terminate ws) = clientId ws"
  by (simp_all add: terminate_def)

lemma update_ws_keys: "map fst (update_ws h f cs) = map fst cs"
  by (induction cs) (auto simp: update_ws_def)

lemma update_ws_lookup:
  "map_of cs h = Some ws \<Longrightarrow> map_of (update_ws h f cs) h = Some (f ws)"
  by (induction cs) (auto simp: update_ws_def)

lemma update_ws_others:
  "h' \<noteq> h \<Longrightarrow> map_of (update_ws h f cs) h' = map_of cs h'"
  by (induction cs) (auto simp: update_ws_def)

lemma on_pong_conns:
  "map_of (wss_clients s) h = Some ws \<Longrightarrow>
   map fst (wss_clients (on_pong h s)) = map fst (wss_clients s) \<and>
   map_of (wss_clients (on_pong h s)) h = Some (ws\<lparr>isAlive := True\<rparr>)"
  by (auto simp: on_pong_def Let_def update_ws_keys update_ws_lookup split: option.splits)

lemma on_pong_others:
  "h' \<noteq> h \<Longrightarrow> map_of (wss_clients (on_pong h s)) h' = map_of (wss_clients s) h'"
  by (auto simp: on_pong_def Let_def update_ws_others split: option.splits)

lemma open_others_after_removal:
  "open_others None (s\<lparr>wss_clients := filter (\<lambda>p. fst p \<noteq> h) (wss_clients s)\<rparr>) =
   open_others (Some h) s"
  by (auto simp: open_others_def intro: arg_cong [where f = "map fst"] filter_cong)

lemma map_of_removed: "map_of (filter (\<lambda>p. fst p \<noteq> h) cs) h = None"
  by (induction cs) auto

lemma on_close_evicts:
  assumes "map_of (wss_clients s) h = Some ws"
    and "printable_role s (clientId ws)"
    and "\<forall>h' \<in> set (open_others (Some h) s). thr h' (departure_notice (clientId ws) now) = None"
  shows "fst (on_close thr h code reason now s) = Inr JUndefined"
    and "map_of (wss_clients (snd (on_close thr h code reason now s))) h = None"
    and "clients (snd (on_close thr h code reason now s)) (clientId ws) = None"
    and "effects (snd (on_close thr h code reason now s)) =
           effects s @ map (\<lambda>h'. Send h' (departure_notice (clientId ws) now))
                         (open_others (Some h) s)"
proof -
  let ?s1 = "s\<lparr>wss_clients := filter (\<lambda>p. fst p \<noteq> h) (wss_clients s)\<rparr>"
  let ?cid = "clientId ws"
  have "printable_role ?s1 ?cid" using assms(2) by (simp add: printable_role_def)
  from getClientInfo_printable [OF this] obtain info where gi: "getClientInfo ?cid ?s1 = Inr info"
    by blast
  let ?line = "ConnectionClosed (fst info) (snd info) code (reason_text reason)
                 (case clients ?s1 ?cid of None \<Rightarrow> 0
                  | Some c \<Rightarrow> (now - c_connectedAt c + 500) div 1000)
                 (case clients ?s1 ?cid of None \<Rightarrow> 0 | Some c \<Rightarrow> c_messageCount c)
                 (int (length (wss_clients ?s1)) - 1)"
  let ?s3 = "?s1\<lparr>console := console ?s1 @ [?line], clients := (clients ?s1)(?cid := None)\<rparr>"
  have oc: "on_close thr h code reason now s =
              broadcast thr (departure_notice ?cid now) None ?s3"
    by (simp add: on_close_def assms(1) Let_def gi broadcastSystemMessage_def
        departure_notice_def)
  have oo: "open_others None ?s3 = open_others (Some h) s"
    using open_others_after_removal [of h s] by (simp add: open_others_def)
  have "\<forall>h' \<in> set (open_others None ?s3). thr h' (departure_notice ?cid now) = None"
    using assms(3) by (simp only: oo)
  then have "broadcast thr (departure_notice ?cid now) None ?s3 =
             (Inr JUndefined,
              ?s3\<lparr>effects := effects ?s3 @
                 map (\<lambda>h'. Send h' (departure_notice ?cid now)) (open_others None ?s3)\<rparr>)"
    by (rule broadcast_ok)
  then have b: "broadcast thr (departure_notice ?cid now) None ?s3 =
             (Inr JUndefined,
              ?s3\<lparr>effects := effects ?s3 @
                 map (\<lambda>h'. Send h' (departure_notice ?cid now)) (open_others (Some h) s)\<rparr>)"
    by (simp only: oo)
  show "fst (on_close thr h code reason now s) = Inr JUndefined"
    unfolding oc b by simp
  show "map_of (wss_clients (snd (on_close thr h code reason now s))) h = None"
    unfolding oc b by (simp add: map_of_removed)
  show "clients (snd (on_close thr h code reason now s)) (clientId ws) = None"
    unfolding oc b by simp
  show "effects (snd (on_close thr h code reason now s)) =
           effects s @ map (\<lambda>h'. Send h' (departure_notice (clientId ws) now))
                         (open_others (Some h) s)"
    unfolding oc b by simp
qed

lemma on_close_unprintable:
  assumes "map_of (wss_clients s) h = Some ws" and "\<not> printable_role s (clientId ws)"
  shows "on_close thr h code reason now s =
           (Inl (Error ''Cannot convert object to primitive value''),
            s\<lparr>wss_clients := filter (\<lambda>p. fst p \<noteq> h) (wss_clients s)\<rparr>)"
proof -
  let ?s1 = "s\<lparr>wss_clients := filter (\<lambda>p. fst p \<noteq> h) (wss_clients s)\<rparr>"
  have "\<not> printable_role ?s1 (clientId ws)" using assms(2) by (simp add: printable_role_def)
  then have "getClientInfo (clientId ws) ?s1 =
               Inl (Error ''Cannot convert object to primitive value'')"
    by (rule getClientInfo_unprintable)
  then show ?thesis by (simp add: on_close_def assms(1) Let_def)
qed

section \<open>Properties of the shutdown\<close>

lemma shutdown_loop_ok:
  "\<forall>p \<in> set cs. readyState (snd p) = OPEN \<longrightarrow> thr (fst p) m = None \<Longrightarrow>
   shutdown_loop thr m cs =
     (None,
      map (\<lambda>p. if readyState (snd p) = OPEN then (fst p, (snd p)\<lparr>readyState := CLOSING\<rparr>) else p) cs,
      concat (map (notify_and_close m)
        (map fst (filter (\<lambda>p. Some (fst p) \<noteq> None \<and> readyState (snd p) = OPEN) cs))))"
  by (induction cs) (auto simp: notify_and_close_def)

lemma shutdown_ok:
  assumes "\<forall>h \<in> set (open_others None s). thr h (shutdown_notice now) = None"
  shows "shutdown thr now s =
     (Inr JUndefined,
      s\<lparr>console := console s @ [ShuttingDown], heartbeatTimer := False,
        wss_clients :=
          map (\<lambda>p. if readyState (snd p) = OPEN then (fst p, (snd p)\<lparr>readyState := CLOSING\<rparr>) else p)
            (wss_clients s),
        effects := effects s @ [ClearInterval] @
          concat (map (notify_and_close (shutdown_notice now)) (open_others None s)) @
          [WssClose, SetTimeout 5000],
        wss_close_cb := True, grace_timer := True\<rparr>)"
proof -
  have "\<forall>p \<in> set (wss_clients s).
          readyState (snd p) = OPEN \<longrightarrow> thr (fst p) (shutdown_notice now) = None"
    using assms by (force simp: open_others_def)
  then have "shutdown_loop thr (shutdown_notice now) (wss_clients s) =
     (None,
      map (\<lambda>p. if readyState (snd p) = OPEN then (fst p, (snd p)\<lparr>readyState := CLOSING\<rparr>) else p)
        (wss_clients s),
      concat (map (notify_and_close (shutdown_notice now)) (open_others None s)))"
    unfolding open_others_def by (rule shutdown_loop_ok)
  then show ?thesis
    by (simp add: shutdown_def Let_def shutdown_notice_def)
qed

lemma keeps_pending_refl [simp]: "keeps_pending s s"
  by (simp add: keeps_pending_def)

lemma keeps_pending_trans:
  "keeps_pending s s' \<Longrightarrow> keeps_pending s' s'' \<Longrightarrow> keeps_pending s s''"
  by (simp add: keeps_pending_def)

lemma relays_pending: "relays s s' \<Longrightarrow> keeps_pending s s'"
  by (simp add: keeps_pending_def relays_fields)

lemma broadcast_never_throws:
  "\<forall>h m. thr h m = None \<Longrightarrow> fst (broadcast thr m sender s) = Inr JUndefined"
  using broadcast_ok [of sender s thr m] by simp

lemma shutdown_keeps_pending:
  assumes "\<forall>h m. thr h m = None"
  shows "fst (shutdown thr now s) = Inr JUndefined"
    and "keeps_pending s (snd (shutdown thr now s))"
proof -
  have "\<forall>h \<in> set (open_others None s). thr h (shutdown_notice now) = None"
    using assms by simp
  note sh = shutdown_ok [where s = s and thr = thr and now = now, OF this]
  show "fst (shutdown thr now s) = Inr JUndefined" unfolding sh by simp
  show "keeps_pending s (snd (shutdown thr now s))" unfolding sh by (simp add: keeps_pending_def)
qed

lemma uncaughtException_pending:
  assumes "\<forall>h m. thr h m = None"
  shows "keeps_pending s (uncaughtException thr e now s)"
proof -
  let ?s1 = "s\<lparr>console := console s @ [UncaughtExceptionLine e]\<rparr>"
  have a: "keeps_pending s ?s1" by (simp add: keeps_pending_def)
  have b: "uncaughtException thr e now s = snd (shutdown thr now ?s1)"
    using shutdown_keeps_pending(1) [OF assms, of now ?s1]
    by (cases "shutdown thr now ?s1") (simp add: uncaughtException_def)
  show ?thesis
    using keeps_pending_trans [OF a shutdown_keeps_pending(2) [OF assms, of ?s1 now]]
    by (simp only: b)
qed

lemma top_level_pending:
  assumes "\<forall>h m. thr h m = None" and "keeps_pending s (snd r)"
  shows "keeps_pending s (top_level thr now r)"
proof (cases r)
  case (Pair x s')
  show ?thesis
  proof (cases x)
    case (Inr u)
    then show ?thesis using assms(2) Pair by (simp add: top_level_def)
  next
    case (Inl e)
    have "keeps_pending s (uncaughtException thr e now s')"
      using keeps_pending_trans [OF _ uncaughtException_pending [OF assms(1)]] assms(2) Pair
      by simp
    then show ?thesis using Pair Inl by (simp add: top_level_def)
  qed
qed

lemma on_close_pending: "keeps_pending s (snd (on_close thr h code reason now s))"
proof (cases "map_of (wss_clients s) h")
  case None
  then show ?thesis by (simp add: on_close_def)
next
  case (Some ws)
  let ?s1 = "s\<lparr>wss_clients := filter (\<lambda>p. fst p \<noteq> h) (wss_clients s)\<rparr>"
  show ?thesis
  proof (cases "getClientInfo (clientId ws) ?s1")
    case (Inl e)
    then show ?thesis
      by (simp add: on_close_def Some Let_def keeps_pending_def)
  next
    case (Inr info)
    then show ?thesis
      by (simp add: on_close_def Some Let_def keeps_pending_def broadcastSystemMessage_def
          broadcast_def split: prod.splits)
  qed
qed

lemma simple_pending:
  "keeps_pending s (snd (on_error h e s))" "keeps_pending s (on_pong h s)"
  "keeps_pending s (heartbeat s)" "keeps_pending s (on_connection h ip now s)"
  by (auto simp: keeps_pending_def on_error_def on_pong_def Let_def heartbeat_def
      on_connection_def generateClientId_def split: option.splits prod.splits sum.splits)

lemma step_ordinary:
  assumes "is_ordinary te" and "\<forall>h m. thr h m = None"
  shows "keeps_pending s (step parse thr te s)"
proof (cases "exited s = None")
  case False
  then show ?thesis by (simp add: step_exited)
next
  case True
  obtain now ev where te: "te = (now, ev)" by (cases te)
  show ?thesis
  proof (cases ev)
    case (Message h d)
    then show ?thesis
      using te True relays_pending [OF on_message_relays [of s parse thr h d]]
      by (simp add: step_message)
  next
    case (CloseEvent h code reason)
    then show ?thesis
      using te True top_level_pending [OF assms(2) on_close_pending [of s thr h code reason now]]
      by (simp add: step_def)
  next
    case (SocketError h e)
    then show ?thesis
      using te True top_level_pending [OF assms(2) simple_pending(1) [of s h e]]
      by (simp add: step_def)
  qed (use te True assms(1) in \<open>simp_all add: step_def simple_pending\<close>)
qed

lemma run_ordinary:
  assumes "\<forall>te \<in> set tes. is_ordinary te" and "\<forall>h m. thr h m = None"
  shows "keeps_pending s (run parse thr tes s)"
  using assms(1)
proof (induction tes arbitrary: s)
  case Nil
  then show ?case by simp
next
  case (Cons te tes)
  have a: "keeps_pending s (step parse thr te s)"
    using Cons.prems assms(2) by (simp add: step_ordinary)
  have b: "keeps_pending (step parse thr te s) (run parse thr tes (step parse thr te s))"
    using Cons.IH Cons.prems by simp
  from keeps_pending_trans [OF a b] show ?case by simp
qed

lemma run_exited: "exited s \<noteq> None \<Longrightarrow> run parse thr tes s = s"
  by (induction tes arbitrary: s) (simp_all add: step_exited)


lemma shutdown_pending:
  assumes "\<forall>h m. thr h m = None" and "exited s = None"
  shows "fst (shutdown thr now s) = Inr JUndefined"
    and "exited (snd (shutdown thr now s)) = None"
    and "wss_close_cb (snd (shutdown thr now s))"
    and "grace_timer (snd (shutdown thr now s))"
    and "heartbeatTimer (snd (shutdown thr now s)) = False"
    and "effects (snd (shutdown thr now s)) =
           effects s @ [ClearInterval] @
           concat (map (notify_and_close (shutdown_notice now)) (open_others None s)) @
           [WssClose, SetTimeout 5000]"
proof -
  have "\<forall>h \<in> set (open_others None s). thr h (shutdown_notice now) = None"
    using assms(1) by simp
  note sh = shutdown_ok [where s = s and thr = thr and now = now, OF this]
  show "fst (shutdown thr now s) = Inr JUndefined" unfolding sh by simp
  show "exited (snd (shutdown thr now s)) = None" unfolding sh using assms(2) by simp
  show "wss_close_cb (snd (shutdown thr now s))" unfolding sh by simp
  show "grace_timer (snd (shutdown thr now s))" unfolding sh by simp
  show "heartbeatTimer (snd (shutdown thr now s)) = False" unfolding sh by simp
  show "effects (snd (shutdown thr now s)) =
           effects s @ [ClearInterval] @
           concat (map (notify_and_close (shutdown_notice now)) (open_others None s)) @
           [WssClose, SetTimeout 5000]"
    unfolding sh by simp
qed

lemma exit_after_teardown:
  assumes "\<forall>h m. thr h m = None"
    and "\<forall>te \<in> set tes1. is_ordinary te" and "\<forall>te \<in> set tes2. is_ordinary te"
    and "exited s = None" and "wss_close_cb s"
  shows "exited (run parse thr (tes1 @ [(t1, WssClosed)] @ tes2 @ [(t2, HttpClosed)] @ rest) s) =
           Some 0"
proof -
  let ?a = "run parse thr tes1 s"
  have la: "keeps_pending s ?a" using assms(2) assms(1) by (rule run_ordinary)
  then have a: "exited ?a = None" "wss_close_cb ?a"
    using assms(4) assms(5) by (simp_all add: keeps_pending_def)
  let ?b = "step parse thr (t1, WssClosed) ?a"
  have b: "exited ?b = None" "http_close_cb ?b"
    using a by (simp_all add: step_def wss_closed_def)
  let ?c = "run parse thr tes2 ?b"
  have lc: "keeps_pending ?b ?c" using assms(3) assms(1) by (rule run_ordinary)
  then have c: "exited ?c = None" "http_close_cb ?c"
    using b by (simp_all add: keeps_pending_def)
  let ?d = "step parse thr (t2, HttpClosed) ?c"
  have d: "exited ?d = Some 0"
    using c by (simp add: step_def http_closed_def process_exit_def)
  then have "run parse thr rest ?d = ?d" by (simp add: run_exited)
  then show ?thesis using d by (simp add: run_append)
qed

lemma exit_after_timeout:
  assumes "\<forall>h m. thr h m = None"
    and "\<forall>te \<in> set tes1. is_ordinary te"
    and "exited s = None" and "grace_timer s"
  shows "exited (run parse thr (tes1 @ [(t1, GraceTimeout)] @ rest) s) = Some 1"
proof -
  let ?a = "run parse thr tes1 s"
  have la: "keeps_pending s ?a" using assms(2) assms(1) by (rule run_ordinary)
  then have a: "exited ?a = None" "grace_timer ?a"
    using assms(3) assms(4) by (simp_all add: keeps_pending_def)
  let ?d = "step parse thr (t1, GraceTimeout) ?a"
  have d: "exited ?d = Some 1"
    using a by (simp add: step_def grace_timeout_def process_exit_def)
  then have "run parse thr rest ?d = ?d" by (simp add: run_exited)
  then show ?thesis using d by (simp add: run_append)
qed

lemma exit_after_late_timeout:
  assumes "\<forall>h m. thr h m = None"
    and "\<forall>te \<in> set tes1. is_ordinary te" and "\<forall>te \<in> set tes2. is_ordinary te"
    and "exited s = None" and "grace_timer s"
  shows "exited (run parse thr (tes1 @ [(t1, WssClosed)] @ tes2 @ [(t2, GraceTimeout)] @ rest) s) =
           Some 1"
proof -
  let ?a = "run parse thr tes1 s"
  have la: "keeps_pending s ?a" using assms(2) assms(1) by (rule run_ordinary)
  then have a: "exited ?a = None" "grace_timer ?a"
    using assms(4) assms(5) by (simp_all add: keeps_pending_def)
  let ?b = "step parse thr (t1, WssClosed) ?a"
  have b: "exited ?b = None" "grace_timer ?b"
    using a by (simp_all add: step_def wss_closed_def)
  have "exited (run parse thr (tes2 @ [(t2, GraceTimeout)] @ rest) ?b) = Some 1"
    using assms(1) assms(3) b by (rule exit_after_timeout)
  then show ?thesis by (simp add: run_append)
qed

text \<open>
  Claim C8. With no send throwing, \<open>shutdown\<close> returns; it clears the heartbeat interval,
  after which a tick does nothing; for each open connection, once, it sends the shutdown
  notice and directly after it closes the connection with code 1001, and then it closes
  the server and sets the timer of 5000 ms. Time is the order of events: when, with
  normal service in between, the \<open>wss.close\<close> callback and then the \<open>server.close\<close> callback
  run before the timer fires, the process exits with status 0; when the timer fires
  first, before or after the \<open>wss.close\<close> callback, it exits with status 1. A termination
  signal runs \<open>shutdown\<close>, and an uncaught fault logs the fault and runs the same
  \<open>shutdown\<close>.
\<close>

theorem shutdown_sequence:
  assumes "exited s = None" and "distinct (map fst (wss_clients s))"
    and "\<forall>h m. thr h m = None"
    and "\<forall>te \<in> set tes1. is_ordinary te" and "\<forall>te \<in> set tes2. is_ordinary te"
  shows "fst (shutdown thr now s) = Inr JUndefined \<and>
         heartbeatTimer (snd (shutdown thr now s)) = False \<and>
         step parse thr (t, HeartbeatTick) (snd (shutdown thr now s)) = snd (shutdown thr now s) \<and>
         effects_since s (snd (shutdown thr now s)) =
           [ClearInterval] @
           concat (map (notify_and_close (shutdown_notice now)) (open_others None s)) @
           [WssClose, SetTimeout 5000] \<and>
         distinct (open_others None s) \<and>
         (\<forall>h. h \<in> set (open_others None s) \<longleftrightarrow> ws_readyState s h = OPEN) \<and>
         exited (run parse thr (tes1 @ [(t1, WssClosed)] @ tes2 @ [(t2, HttpClosed)] @ rest)
                  (snd (shutdown thr now s))) = Some 0 \<and>
         exited (run parse thr (tes1 @ [(t1, GraceTimeout)] @ rest)
                  (snd (shutdown thr now s))) = Some 1 \<and>
         exited (run parse thr (tes1 @ [(t1, WssClosed)] @ tes2 @ [(t2, GraceTimeout)] @ rest)
                  (snd (shutdown thr now s))) = Some 1 \<and>
         step parse thr (now, TerminationSignal) s = snd (shutdown thr now s) \<and>
         step parse thr (now, UncaughtFault e) s =
           snd (shutdown thr now (s\<lparr>console := console s @ [UncaughtExceptionLine e]\<rparr>))"
proof -
  let ?s' = "snd (shutdown thr now s)"
  note sp = shutdown_pending [OF assms(3) assms(1), of now]
  have a: "fst (shutdown thr now s) = Inr JUndefined" by (rule sp(1))
  have b: "heartbeatTimer ?s' = False" by (rule sp(5))
  have c: "step parse thr (t, HeartbeatTick) ?s' = ?s'"
    using b by (simp add: step_def)
  have d: "effects_since s ?s' =
           [ClearInterval] @
           concat (map (notify_and_close (shutdown_notice now)) (open_others None s)) @
           [WssClose, SetTimeout 5000]"
    using sp(6) by (rule effects_sinceI)
  have f: "distinct (open_others None s)"
    using assms(2) by (rule open_others_distinct)
  have g: "\<forall>h. h \<in> set (open_others None s) \<longleftrightarrow> ws_readyState s h = OPEN"
    using assms(2) by (simp add: open_others_iff)
  have i: "exited (run parse thr (tes1 @ [(t1, WssClosed)] @ tes2 @ [(t2, HttpClosed)] @ rest) ?s') =
             Some 0"
    using assms(3) assms(4) assms(5) sp(2) sp(3) by (rule exit_after_teardown)
  have j: "exited (run parse thr (tes1 @ [(t1, GraceTimeout)] @ rest) ?s') = Some 1"
    using assms(3) assms(4) sp(2) sp(4) by (rule exit_after_timeout)
  have k: "exited (run parse thr (tes1 @ [(t1, WssClosed)] @ tes2 @ [(t2, GraceTimeout)] @ rest) ?s') =
             Some 1"
    using assms(3) assms(4) assms(5) sp(2) sp(4) by (rule exit_after_late_timeout)
  have l: "step parse thr (now, TerminationSignal) s = ?s'"
    using a assms(1) by (cases "shutdown thr now s") (simp add: step_def top_level_def)
  let ?s0 = "s\<lparr>console := console s @ [UncaughtExceptionLine e]\<rparr>"
  have "exited ?s0 = None" using assms(1) by simp
  from shutdown_pending(1) [OF assms(3) this, of now]
  have m: "step parse thr (now, UncaughtFault e) s = snd (shutdown thr now ?s0)"
    using assms(1) by (cases "shutdown thr now ?s0") (simp add: step_def uncaughtException_def)
  from a b c d f g i j k l m show ?thesis by blast
qed

theorem shutdown_sequence_witness:
  "exited three_clients = None \<and> distinct (map fst (wss_clients three_clients)) \<and>
   (\<forall>h m. never_throws h m = None) \<and>
   is_ordinary (6, Pong 1) \<and>
   is_ordinary (7, CloseEvent 2 1001 (BufferReason ''Server shutdown'')) \<and>
   effects_since three_clients (snd (shutdown never_throws 5 three_clients)) =
     [ClearInterval,
      Send 1 (shutdown_notice 5), CloseConn 1 1001 ''Server shutdown'',
      Send 2 (shutdown_notice 5), CloseConn 2 1001 ''Server shutdown'',
      Send 3 (shutdown_notice 5), CloseConn 3 1001 ''Server shutdown'',
      WssClose, SetTimeout 5000] \<and>
   exited (run example_parse never_throws
      ([(6, Pong 1)] @ [(8, WssClosed)] @ [(7, CloseEvent 2 1001 (BufferReason ''Server shutdown''))] @
       [(9, HttpClosed)] @ [])
      (snd (shutdown never_throws 5 three_clients))) = Some 0 \<and>
   exited (run example_parse never_throws
      ([(6, Pong 1)] @ [(5005, GraceTimeout)] @ [])
      (snd (shutdown never_throws 5 three_clients))) = Some 1"
proof -
  have a: "exited three_clients = None"
    by (simp add: three_clients_def initial_server_def)
  have b: "distinct (map fst (wss_clients three_clients))"
    by (simp add: three_clients_def)
  have c: "\<forall>h m. never_throws h m = None"
    by (simp add: never_throws_def)
  have d: "\<forall>te \<in> set [(6, Pong 1)]. is_ordinary te" by simp
  have e: "\<forall>te \<in> set [(7, CloseEvent 2 1001 (BufferReason ''Server shutdown''))]. is_ordinary te" by simp
  have o: "open_others None three_clients = [1, 2, 3]"
    by (simp add: open_others_def three_clients_def)
  from shutdown_sequence [where s = three_clients and thr = never_throws
      and ?tes1.0 = "[(6, Pong 1)]" and ?tes2.0 = "[(7, CloseEvent 2 1001 (BufferReason ''Server shutdown''))]"
      and now = 5 and parse = example_parse and ?t1.0 = 8 and ?t2.0 = 9 and rest = "[]",
      OF a b c d e]
    shutdown_sequence [where s = three_clients and thr = never_throws
      and ?tes1.0 = "[(6, Pong 1)]" and ?tes2.0 = "[(7, CloseEvent 2 1001 (BufferReason ''Server shutdown''))]"
      and now = 5 and parse = example_parse and ?t1.0 = 5005 and rest = "[]",
      OF a b c d e]
    a b c d e o
  show ?thesis by (simp add: notify_and_close_def)
qed

section \<open>A client type that cannot be printed\<close>

lemma unprintable_message_1:
  "run example_parse never_throws [(1, Message 1 unprintable_type_payload)] three_clients =
     three_clients
       \<lparr>clients := (clients three_clients)(''client_1'' \<mapsto>
           (new_client 1 ''client_1'')
             \<lparr>c_type := JObj [(''toString'', JNum 1)], c_messageCount := 1\<rparr>),
        effects := [Send 2 (Token (JStr unprintable_type_payload)),
                    Send 3 (Token (JStr unprintable_type_payload))],
        console := [MessageReceived ''client_1'' (Some (JStr ''unknown'')) unprintable_type_payload,
                    BroadcastDone (JStr unprintable_type_payload) 2]\<rparr>"
  by (simp add: step_def top_level_def on_message_def message_body_def parse_block_def
      hexCode_def forward_def broadcast_def count_message_def log_received_def getClientInfo_def
      to_text_def js_incr_def example_parse_def never_throws_def three_clients_def
      new_client_def initial_server_def unprintable_type_payload_def)

text \<open>
  Claim C3, at a failing input. Connection 1 sends a structured payload whose
  \<open>clientType\<close> is an object with a key \<open>toString\<close>. The classifier recovers (the peers are
  sent the payload's text as the token), but line 143 has stored the object as the role.
  When connection 1 closes, \<open>getClientInfo\<close> throws at line 182, outside any \<open>try\<close>: the
  entry stays in the \<open>clients\<close> map, no departure notice is sent, and the \<open>uncaughtException\<close>
  handler shuts the server down, so that both peers are sent the shutdown notice and
  are closed.
\<close>

theorem malformed_payload_shuts_down_peers:
  "classify example_parse True unprintable_type_payload = Inr (JStr unprintable_type_payload) \<and>
   effects (run example_parse never_throws close_after_unprintable three_clients) =
     [Send 2 (Token (JStr unprintable_type_payload)),
      Send 3 (Token (JStr unprintable_type_payload)),
      ClearInterval,
      Send 2 (shutdown_notice 2), CloseConn 2 1001 ''Server shutdown'',
      Send 3 (shutdown_notice 2), CloseConn 3 1001 ''Server shutdown'',
      WssClose, SetTimeout 5000] \<and>
   role_of (run example_parse never_throws close_after_unprintable three_clients) ''client_1'' =
     Some (JObj [(''toString'', JNum 1)]) \<and>
   last (console (run example_parse never_throws close_after_unprintable three_clients)) =
     ShuttingDown"
proof -
  have c: "classify example_parse True unprintable_type_payload =
             Inr (JStr unprintable_type_payload)"
    by (simp add: classify_def example_parse_def hexCode_def unprintable_type_payload_def)
  have r: "run example_parse never_throws close_after_unprintable three_clients =
             step example_parse never_throws (2, CloseEvent 1 1000 (BufferReason []))
               (run example_parse never_throws [(1, Message 1 unprintable_type_payload)]
                  three_clients)"
    by (simp add: close_after_unprintable_def)
  have e: "effects (run example_parse never_throws close_after_unprintable three_clients) =
     [Send 2 (Token (JStr unprintable_type_payload)),
      Send 3 (Token (JStr unprintable_type_payload)),
      ClearInterval,
      Send 2 (shutdown_notice 2), CloseConn 2 1001 ''Server shutdown'',
      Send 3 (shutdown_notice 2), CloseConn 3 1001 ''Server shutdown'',
      WssClose, SetTimeout 5000]"
    unfolding r unprintable_message_1
    by (simp add: step_def top_level_def on_close_def Let_def getClientInfo_def to_text_def
        uncaughtException_def shutdown_def shutdown_notice_def never_throws_def
        three_clients_def new_client_def initial_server_def)
  have o: "role_of (run example_parse never_throws close_after_unprintable three_clients)
             ''client_1'' = Some (JObj [(''toString'', JNum 1)])"
    unfolding r unprintable_message_1
    by (simp add: step_def top_level_def on_close_def Let_def getClientInfo_def to_text_def
        uncaughtException_def shutdown_def shutdown_notice_def never_throws_def
        three_clients_def new_client_def initial_server_def role_of_def)
  have l: "last (console (run example_parse never_throws close_after_unprintable three_clients)) =
             ShuttingDown"
    unfolding r unprintable_message_1
    by (simp add: step_def top_level_def on_close_def Let_def getClientInfo_def to_text_def
        uncaughtException_def shutdown_def shutdown_notice_def never_throws_def
        three_clients_def new_client_def initial_server_def)
  from c e o l show ?thesis by blast
qed

text \<open>
  Claim C7, at a failing input. Connection 2 has sent the same payload and then misses a
  heartbeat cycle. The second heartbeat terminates it, as the claim says; but in the
  \<open>close\<close> handler \<open>getClientInfo\<close> throws at line 182, before lines 191 and 194: the entry
  of \<open>client_2\<close> stays in the \<open>clients\<close> map, no departure notice is sent to the two
  connections that remain, and the server shuts down instead.
\<close>

theorem unprintable_role_blocks_eviction:
  "effects (run example_parse never_throws eviction_after_unprintable three_clients) =
     [Send 1 (Token (JStr unprintable_type_payload)),
      Send 3 (Token (JStr unprintable_type_payload)),
      Ping 1, Ping 2, Ping 3,
      Ping 1, Terminate 2, Ping 3,
      ClearInterval,
      Send 1 (shutdown_notice 5), CloseConn 1 1001 ''Server shutdown'',
      Send 3 (shutdown_notice 5), CloseConn 3 1001 ''Server shutdown'',
      WssClose, SetTimeout 5000] \<and>
   Send 1 (departure_notice ''client_2'' 5) \<notin>
     set (effects (run example_parse never_throws eviction_after_unprintable three_clients)) \<and>
   Send 3 (departure_notice ''client_2'' 5) \<notin>
     set (effects (run example_parse never_throws eviction_after_unprintable three_clients)) \<and>
   role_of (run example_parse never_throws eviction_after_unprintable three_clients) ''client_2'' =
     Some (JObj [(''toString'', JNum 1)]) \<and>
   map_of (wss_clients (run example_parse never_throws eviction_after_unprintable three_clients)) 2 =
     None"
proof -
  have e: "effects (run example_parse never_throws eviction_after_unprintable three_clients) =
     [Send 1 (Token (JStr unprintable_type_payload)),
      Send 3 (Token (JStr unprintable_type_payload)),
      Ping 1, Ping 2, Ping 3,
      Ping 1, Terminate 2, Ping 3,
      ClearInterval,
      Send 1 (shutdown_notice 5), CloseConn 1 1001 ''Server shutdown'',
      Send 3 (shutdown_notice 5), CloseConn 3 1001 ''Server shutdown'',
      WssClose, SetTimeout 5000]"
    by (simp add: eviction_after_unprintable_def step_def top_level_def on_message_def
        message_body_def parse_block_def hexCode_def forward_def broadcast_def count_message_def
        log_received_def getClientInfo_def to_text_def js_incr_def example_parse_def
        on_pong_def update_ws_def heartbeat_def terminate_def on_close_def Let_def
        uncaughtException_def shutdown_def shutdown_notice_def never_throws_def
        three_clients_def new_client_def initial_server_def unprintable_type_payload_def)
  have n: "Send 1 (departure_notice ''client_2'' 5) \<notin>
     set (effects (run example_parse never_throws eviction_after_unprintable three_clients))"
    "Send 3 (departure_notice ''client_2'' 5) \<notin>
     set (effects (run example_parse never_throws eviction_after_unprintable three_clients))"
    unfolding e by (simp_all add: departure_notice_def shutdown_notice_def)
  have o: "role_of (run example_parse never_throws eviction_after_unprintable three_clients)
             ''client_2'' = Some (JObj [(''toString'', JNum 1)])"
    by (simp add: eviction_after_unprintable_def step_def top_level_def on_message_def
        message_body_def parse_block_def hexCode_def forward_def broadcast_def count_message_def
        log_received_def getClientInfo_def to_text_def js_incr_def example_parse_def
        on_pong_def update_ws_def heartbeat_def terminate_def on_close_def Let_def
        uncaughtException_def shutdown_def shutdown_notice_def never_throws_def
        three_clients_def new_client_def initial_server_def unprintable_type_payload_def
        role_of_def)
  have w: "map_of (wss_clients (run example_parse never_throws eviction_after_unprintable
             three_clients)) 2 = None"
    by (simp add: eviction_after_unprintable_def step_def top_level_def on_message_def
        message_body_def parse_block_def hexCode_def forward_def broadcast_def count_message_def
        log_received_def getClientInfo_def to_text_def js_incr_def example_parse_def
        on_pong_def update_ws_def heartbeat_def terminate_def on_close_def Let_def
        uncaughtException_def shutdown_def shutdown_notice_def never_throws_def
        three_clients_def new_client_def initial_server_def unprintable_type_payload_def)
  from e n o w show ?thesis by blast
qed

end
